theory Spec2Isabelle
  imports Main "HOL-Library.Sublist"
begin

section \<open>Node model\<close>

text \<open>
  Every syntax construct of \<^verbatim>\<open>pycraft.nodes\<close> is a dataclass deriving from
  \<^verbatim>\<open>BaseNode\<close>.  The statement-level kinds are the constructors of one datatype;
  the fields keep the order of the dataclass declarations.  Fields that hold
  expression-kind nodes have the type parameter \<open>'e\<close>: the builder never looks inside
  them and the statement renderer only hands them to the expression renderer.
  A field declared \<^verbatim>\<open>T | None\<close> is an \<open>option\<close>.

  \<open>IfNode\<close> is the class \<^verbatim>\<open>If\<close> (the name \<open>If\<close> is taken by HOL).
  \<open>Other k\<close> is a node of any further \<^verbatim>\<open>BaseNode\<close> subclass that has no
  \<^verbatim>\<open>body\<close> attribute (an expression node, an operator, a user-defined kind); \<open>k\<close> is
  its class name.  \<open>FinallyBuilder\<close> is not a node: it is the builder object that
  \<^verbatim>\<open>FinallyBuilder.__enter__\<close> pushes on the builder's stack, with its
  \<^verbatim>\<open>temp_body\<close>.
\<close>

datatype 'e node =
    Import "'e list"
  | ImportFrom string "'e list" "int option"
  | ImportGroup "'e node list"
  | ClassDef string "'e list" "'e list" "'e node list" "'e list"
  | FunctionDef string "'e option" "'e node list" "'e option" "'e list" "'e list"
  | AsyncFunctionDef string "'e option" "'e node list" "'e option" "'e list" "'e list"
  | IfNode "'e option" "'e node list" "'e node list"
  | Elif "'e option" "'e node list"
  | Else "'e node list"
  | For "'e option" "'e option" "'e node list" "'e node list"
  | AsyncFor "'e option" "'e option" "'e node list" "'e node list"
  | While "'e option" "'e node list" "'e node list"
  | With "'e list" "'e node list"
  | Try "'e node list" "'e node list" "'e node list" "'e node list"
  | Match "'e option" "'e node list"
  | MatchCase "'e option" "'e option" "'e node list"
  | Expr "'e option"
  | Assign "'e list" "'e option" "string option"
  | AugAssign "'e option" "'e option" "'e option" "string option"
  | AnnAssign string "'e option" int "string option" "'e option"
  | Return "'e option"
  | Yield "'e option"
  | Await "'e option"
  | Delete "'e list"
  | Global "string list"
  | Nonlocal "string list"
  | Assert "'e option" "'e option"
  | Raise "'e option" "'e option"
  | Pass
  | Break
  | Continue
  | Comment string
  | ExceptHandler "'e option" "string option" "'e node list"
  | Module "'e node list"
  | Finally "'e node list"
  | Other string
  | FinallyBuilder "'e node list"


text \<open>\<^verbatim>\<open>isinstance(node, BaseNode)\<close>: everything but the builder object.\<close>

fun is_BaseNode :: "'e node \<Rightarrow> bool" where
  "is_BaseNode (FinallyBuilder _) = False"
| "is_BaseNode _ = True"

text \<open>
  \<^verbatim>\<open>BodyNode\<close> is a runtime-checkable protocol with the one member \<^verbatim>\<open>body\<close>, so
  \<^verbatim>\<open>isinstance(x, BodyNode)\<close> holds exactly when \<^verbatim>\<open>x\<close> has an attribute
  \<^verbatim>\<open>body\<close>.  \<^verbatim>\<open>Match\<close> has \<^verbatim>\<open>subject\<close> and \<^verbatim>\<open>cases\<close> only.  \<open>body_of\<close> reads
  the attribute (\<open>None\<close> when there is none), \<open>set_body\<close> replaces the list it holds.
\<close>

fun body_of :: "'e node \<Rightarrow> 'e node list option" where
  "body_of (ClassDef _ _ _ b _) = Some b"
| "body_of (FunctionDef _ _ b _ _ _) = Some b"
| "body_of (AsyncFunctionDef _ _ b _ _ _) = Some b"
| "body_of (IfNode _ b _) = Some b"
| "body_of (Elif _ b) = Some b"
| "body_of (Else b) = Some b"
| "body_of (For _ _ b _) = Some b"
| "body_of (AsyncFor _ _ b _) = Some b"
| "body_of (While _ b _) = Some b"
| "body_of (With _ b) = Some b"
| "body_of (Try b _ _ _) = Some b"
| "body_of (MatchCase _ _ b) = Some b"
| "body_of (ExceptHandler _ _ b) = Some b"
| "body_of (Module b) = Some b"
| "body_of (Finally b) = Some b"
| "body_of (FinallyBuilder b) = Some b"
| "body_of _ = None"

definition is_BodyNode :: "'e node \<Rightarrow> bool" where
  "is_BodyNode n = (body_of n \<noteq> None)"

fun set_body :: "'e node \<Rightarrow> 'e node list \<Rightarrow> 'e node" where
  "set_body (ClassDef a b c _ d) x = ClassDef a b c x d"
| "set_body (FunctionDef a b _ c d e) x = FunctionDef a b x c d e"
| "set_body (AsyncFunctionDef a b _ c d e) x = AsyncFunctionDef a b x c d e"
| "set_body (IfNode a _ b) x = IfNode a x b"
| "set_body (Elif a _) x = Elif a x"
| "set_body (Else _) x = Else x"
| "set_body (For a b _ c) x = For a b x c"
| "set_body (AsyncFor a b _ c) x = AsyncFor a b x c"
| "set_body (While a _ b) x = While a x b"
| "set_body (With a _) x = With a x"
| "set_body (Try _ a b c) x = Try x a b c"
| "set_body (MatchCase a b _) x = MatchCase a b x"
| "set_body (ExceptHandler a b _) x = ExceptHandler a b x"
| "set_body (Module _) x = Module x"
| "set_body (Finally _) x = Finally x"
| "set_body (FinallyBuilder _) x = FinallyBuilder x"
| "set_body n x = n"


section \<open>Builder\<close>

text \<open>
  Python exceptions are values.  \<open>IndexError\<close> is what \<^verbatim>\<open>list.pop()\<close> raises on an
  empty list, \<open>ValueError\<close> carries its message, \<open>NameError\<close> the name that is
  not defined, \<open>FileNotFoundError\<close> the path that could not be opened.
  \<open>Misnested\<close> is not a Python exception: it marks the one situation the value
  model cannot express (see \<open>FinallyBuilder_exit\<close>).
\<close>

datatype py_error =
  IndexError | ValueError string | NameError string | FileNotFoundError string | Misnested

fun and_then :: "py_error + 'a \<Rightarrow> ('a \<Rightarrow> py_error + 'b) \<Rightarrow> py_error + 'b" where
  "and_then (Inl e) f = Inl e"
| "and_then (Inr x) f = f x"

text \<open>
  \<^verbatim>\<open>Builder\<close>: the top-level sequence and the stack of open nodes.  Both are Python
  lists, kept in Python's order: \<^verbatim>\<open>append\<close> adds at the end, \<^verbatim>\<open>_stack[-1]\<close> is
  \<open>last\<close>, \<^verbatim>\<open>_stack.pop()\<close> removes the last entry.  A node is referenced only by
  the stack while it is open (it is attached to a parent at close time), so holding the
  node itself in the stack is the same as holding a reference to it.
\<close>

record 'e builder =
  root_nodes :: "'e node list"
  stack :: "'e node list"

definition Builder_init :: "'e builder" where
  "Builder_init = \<lparr>root_nodes = [], stack = []\<rparr>"

text \<open>\<^verbatim>\<open>parent.body.append(n)\<close> on a node that has a body.\<close>

definition body_append :: "'e node \<Rightarrow> 'e node \<Rightarrow> 'e node" where
  "body_append parent n =
     (case body_of parent of Some xs \<Rightarrow> set_body parent (xs @ [n]) | None \<Rightarrow> parent)"

text \<open>Applying an in-place mutation to the node at the top of the stack.\<close>

definition update_top :: "('e node \<Rightarrow> 'e node) \<Rightarrow> 'e builder \<Rightarrow> 'e builder" where
  "update_top f b = b\<lparr>stack := butlast (stack b) @ [f (last (stack b))]\<rparr>"

text \<open>
  \<^verbatim>\<open>self._get_current_body().append(node)\<close>: \<^verbatim>\<open>_get_current_body\<close> returns the
  body of the stack's top when the stack is not empty and the top is a \<^verbatim>\<open>BodyNode\<close>,
  and \<^verbatim>\<open>root_nodes\<close> otherwise.
\<close>

definition append_current :: "'e builder \<Rightarrow> 'e node \<Rightarrow> 'e builder" where
  "append_current b n =
     (if stack b \<noteq> [] \<and> is_BodyNode (last (stack b))
      then update_top (\<lambda>parent. body_append parent n) b
      else b\<lparr>root_nodes := root_nodes b @ [n]\<rparr>)"

definition add_node :: "'e builder \<Rightarrow> 'e node \<Rightarrow> 'e builder" where
  "add_node b n = append_current b n"

definition push_node :: "'e builder \<Rightarrow> 'e node \<Rightarrow> 'e builder" where
  "push_node b n = b\<lparr>stack := stack b @ [n]\<rparr>"

text \<open>\<^verbatim>\<open>self._stack.pop()\<close>.\<close>

definition stack_pop :: "'e builder \<Rightarrow> py_error + ('e node \<times> 'e builder)" where
  "stack_pop b =
     (if stack b = [] then Inl IndexError
      else Inr (last (stack b), b\<lparr>stack := butlast (stack b)\<rparr>))"

text \<open>
  The placeholder step every close operation starts with:
  \<^verbatim>\<open>if isinstance(node, BodyNode) and not node.body: node.body.append(Pass())\<close>
  (\<^verbatim>\<open>_pop_node\<close> also tests \<^verbatim>\<open>isinstance(node.body, list)\<close>, which holds for every
  kind of the datatype that has a body).
\<close>

definition fill_body :: "'e node \<Rightarrow> 'e node" where
  "fill_body n = (case body_of n of Some [] \<Rightarrow> set_body n [Pass] | _ \<Rightarrow> n)"

text \<open>\<^verbatim>\<open>Builder._pop_node\<close>; the result is the popped node and the builder.\<close>

definition pop_node :: "'e builder \<Rightarrow> py_error + ('e node \<times> 'e builder)" where
  "pop_node b =
     (case stack_pop b of
        Inl e \<Rightarrow> Inl e
      | Inr (node0, b1) \<Rightarrow>
          (let node = fill_body node0 in Inr (node, append_current b1 node)))"

text \<open>\<^verbatim>\<open>Builder._ensure_pass_in_empty_bodies\<close>, run by \<^verbatim>\<open>Builder.__exit__\<close>.\<close>

definition ensure_pass_in_empty_bodies :: "'e builder \<Rightarrow> 'e builder" where
  "ensure_pass_in_empty_bodies b = b\<lparr>root_nodes := map fill_body (root_nodes b)\<rparr>"

subsection \<open>The fields the close operations write\<close>

text \<open>\<^verbatim>\<open>isinstance(parent, (If, While, Try))\<close>.\<close>

fun is_If_While_Try :: "'e node \<Rightarrow> bool" where
  "is_If_While_Try (IfNode _ _ _) = True"
| "is_If_While_Try (While _ _ _) = True"
| "is_If_While_Try (Try _ _ _ _) = True"
| "is_If_While_Try _ = False"

text \<open>\<^verbatim>\<open>parent.or_else.extend(xs)\<close> for such a parent.\<close>

fun or_else_extend :: "'e node list \<Rightarrow> 'e node \<Rightarrow> 'e node" where
  "or_else_extend xs (IfNode t b oe) = IfNode t b (oe @ xs)"
| "or_else_extend xs (While t b oe) = While t b (oe @ xs)"
| "or_else_extend xs (Try b h oe f) = Try b h (oe @ xs) f"
| "or_else_extend xs n = n"

fun is_Match :: "'e node \<Rightarrow> bool" where
  "is_Match (Match _ _) = True"
| "is_Match _ = False"

fun cases_append :: "'e node \<Rightarrow> 'e node \<Rightarrow> 'e node" where
  "cases_append c (Match s cs) = Match s (cs @ [c])"
| "cases_append c n = n"

fun is_Try :: "'e node \<Rightarrow> bool" where
  "is_Try (Try _ _ _ _) = True"
| "is_Try _ = False"

fun handlers_append :: "'e node \<Rightarrow> 'e node \<Rightarrow> 'e node" where
  "handlers_append h (Try b hs oe f) = Try b (hs @ [h]) oe f"
| "handlers_append h n = n"

fun finalbody_extend :: "'e node list \<Rightarrow> 'e node \<Rightarrow> 'e node" where
  "finalbody_extend xs (Try b hs oe f) = Try b hs oe (f @ xs)"
| "finalbody_extend xs n = n"


subsection \<open>Scoped construction operations\<close>

text \<open>
  The nodes the \<^verbatim>\<open>__init__\<close> methods of \<^verbatim>\<open>builder/control_flow.py\<close> create.
  Every \<^verbatim>\<open>__enter__\<close> is \<^verbatim>\<open>self.builder._push_node(self.node)\<close>, except
  \<^verbatim>\<open>FinallyBuilder.__enter__\<close>, which appends the builder object itself.
\<close>

definition IfBuilder_node :: "'e \<Rightarrow> 'e node" where
  "IfBuilder_node test = IfNode (Some test) [] []"

definition ElifBuilder_node :: "'e \<Rightarrow> 'e node" where
  "ElifBuilder_node test = Elif (Some test) []"

definition ElseBuilder_node :: "'e node" where
  "ElseBuilder_node = Else []"


definition CaseBuilder_node :: "'e \<Rightarrow> 'e option \<Rightarrow> 'e node" where
  "CaseBuilder_node pattern guard = MatchCase (Some pattern) guard []"

definition ForBuilder_node :: "'e \<Rightarrow> 'e \<Rightarrow> bool \<Rightarrow> 'e node" where
  "ForBuilder_node target iter is_async =
     (if is_async then AsyncFor (Some target) (Some iter) [] []
      else For (Some target) (Some iter) [] [])"

definition WhileBuilder_node :: "'e \<Rightarrow> 'e node" where
  "WhileBuilder_node test = While (Some test) [] []"

definition TryBuilder_node :: "'e node" where
  "TryBuilder_node = Try [] [] [] []"

definition ExceptBuilder_node :: "'e option \<Rightarrow> string option \<Rightarrow> 'e node" where
  "ExceptBuilder_node exc_type name = ExceptHandler exc_type name []"

definition FinallyBuilder_init :: "'e node" where
  "FinallyBuilder_init = FinallyBuilder []"

text \<open>
  \<^verbatim>\<open>IfBuilder\<close>, \<^verbatim>\<open>MatchBuilder\<close>, \<^verbatim>\<open>ForBuilder\<close>, \<^verbatim>\<open>WhileBuilder\<close>, \<^verbatim>\<open>TryBuilder\<close>,
  \<^verbatim>\<open>WithBuilder\<close>, \<^verbatim>\<open>ClassDefBuilder\<close> and \<^verbatim>\<open>FunctionDefBuilder\<close> all close with
  \<^verbatim>\<open>self.builder._pop_node()\<close> and drop the node it returns.
\<close>

definition plain_exit :: "'e builder \<Rightarrow> py_error + 'e builder" where
  "plain_exit b = (case pop_node b of Inl e \<Rightarrow> Inl e | Inr (node, b') \<Rightarrow> Inr b')"

text \<open>\<^verbatim>\<open>ElifBuilder.__exit__\<close>.\<close>

definition ElifBuilder_exit :: "'e builder \<Rightarrow> py_error + 'e builder" where
  "ElifBuilder_exit b =
     (case stack_pop b of
        Inl e \<Rightarrow> Inl e
      | Inr (node0, b1) \<Rightarrow>
          (let node = fill_body node0 in
           if stack b1 \<noteq> [] then
             (if is_If_While_Try (last (stack b1))
              then Inr (update_top (or_else_extend [node]) b1)
              else Inr (append_current b1 node))
           else Inr (b1\<lparr>root_nodes := root_nodes b1 @ [node]\<rparr>)))"

text \<open>
  \<^verbatim>\<open>ElseBuilder.__exit__\<close>: a compatible parent receives the statements of the popped
  node (\<^verbatim>\<open>parent.or_else.extend(node.body)\<close>), not the node.
\<close>

definition ElseBuilder_exit :: "'e builder \<Rightarrow> py_error + 'e builder" where
  "ElseBuilder_exit b =
     (case stack_pop b of
        Inl e \<Rightarrow> Inl e
      | Inr (node0, b1) \<Rightarrow>
          (let node = fill_body node0 in
           if stack b1 \<noteq> [] then
             (case body_of node of
                Some node_body \<Rightarrow>
                  (if is_If_While_Try (last (stack b1))
                   then Inr (update_top (or_else_extend node_body) b1)
                   else Inr (append_current b1 node))
              | None \<Rightarrow> Inr (append_current b1 node))
           else Inr (b1\<lparr>root_nodes := root_nodes b1 @ [node]\<rparr>)))"

text \<open>\<^verbatim>\<open>CaseBuilder.__exit__\<close>: no \<^verbatim>\<open>else\<close> branch on either test.\<close>

definition CaseBuilder_exit :: "'e builder \<Rightarrow> py_error + 'e builder" where
  "CaseBuilder_exit b =
     (case stack_pop b of
        Inl e \<Rightarrow> Inl e
      | Inr (node0, b1) \<Rightarrow>
          (let node = fill_body node0 in
           if stack b1 \<noteq> [] then
             (if is_Match (last (stack b1))
              then Inr (update_top (cases_append node) b1)
              else Inr b1)
           else Inr b1))"

text \<open>\<^verbatim>\<open>ExceptBuilder.__exit__\<close>: no \<^verbatim>\<open>else\<close> branch for the empty stack.\<close>

definition ExceptBuilder_exit :: "'e builder \<Rightarrow> py_error + 'e builder" where
  "ExceptBuilder_exit b =
     (case stack_pop b of
        Inl e \<Rightarrow> Inl e
      | Inr (node0, b1) \<Rightarrow>
          (let node = fill_body node0 in
           if stack b1 \<noteq> [] then
             (if is_Try (last (stack b1))
              then Inr (update_top (handlers_append node) b1)
              else Inr (append_current b1 node))
           else Inr b1))"

text \<open>
  \<^verbatim>\<open>FinallyBuilder.__exit__\<close> pops the stack and then works on \<^verbatim>\<open>self.temp_body\<close>.
  The entry it pops is the builder object itself whenever the scopes are nested the way
  \<^verbatim>\<open>with\<close> statements nest them, and the statements added in between are in that
  entry.  For any other entry on top the model has no \<^verbatim>\<open>self\<close> to read and answers
  \<open>Misnested\<close>.
\<close>

definition FinallyBuilder_exit :: "'e builder \<Rightarrow> py_error + 'e builder" where
  "FinallyBuilder_exit b =
     (case stack_pop b of
        Inl e \<Rightarrow> Inl e
      | Inr (self, b1) \<Rightarrow>
          (case self of
             FinallyBuilder temp_body0 \<Rightarrow>
               (let temp_body = (if temp_body0 = [] then [Pass] else temp_body0) in
                if stack b1 \<noteq> [] then
                  (if is_Try (last (stack b1))
                   then Inr (update_top (finalbody_extend temp_body) b1)
                   else Inr b1)
                else Inr b1)
           | _ \<Rightarrow> Inl Misnested))"

text \<open>
  A \<^verbatim>\<open>with\<close> block: enter (push the node), run the block, exit.  A block is a list
  of steps run in order; \<open>with_if\<close> is \<^verbatim>\<open>with if_(builder, test):\<close> and so on
  for the other convenience functions; \<open>add\<close> is the step \<^verbatim>\<open>builder.add_node(n)\<close>.  No step of a
  block built from these combinators fails, since every exit finds the entry its own
  enter pushed; an error is propagated as Python propagates the exception.
\<close>

type_synonym 'e step = "'e builder \<Rightarrow> py_error + 'e builder"

fun steps :: "'e step list \<Rightarrow> 'e step" where
  "steps [] b = Inr b"
| "steps (f # fs) b = and_then (f b) (steps fs)"

definition add :: "'e node \<Rightarrow> 'e step" where
  "add n b = Inr (add_node b n)"

definition scoped :: "'e node \<Rightarrow> 'e step \<Rightarrow> 'e step list \<Rightarrow> 'e step" where
  "scoped n exit block b = and_then (steps block (push_node b n)) exit"

definition with_if :: "'e \<Rightarrow> 'e step list \<Rightarrow> 'e step" where
  "with_if test block = scoped (IfBuilder_node test) plain_exit block"

definition with_elif :: "'e \<Rightarrow> 'e step list \<Rightarrow> 'e step" where
  "with_elif test block = scoped (ElifBuilder_node test) ElifBuilder_exit block"

definition with_else :: "'e step list \<Rightarrow> 'e step" where
  "with_else block = scoped ElseBuilder_node ElseBuilder_exit block"


definition with_case :: "'e \<Rightarrow> 'e option \<Rightarrow> 'e step list \<Rightarrow> 'e step" where
  "with_case pattern guard block = scoped (CaseBuilder_node pattern guard) CaseBuilder_exit block"

definition with_for :: "'e \<Rightarrow> 'e \<Rightarrow> 'e step list \<Rightarrow> 'e step" where
  "with_for target iter block = scoped (ForBuilder_node target iter False) plain_exit block"

definition with_async_for :: "'e \<Rightarrow> 'e \<Rightarrow> 'e step list \<Rightarrow> 'e step" where
  "with_async_for target iter block = scoped (ForBuilder_node target iter True) plain_exit block"

definition with_while :: "'e \<Rightarrow> 'e step list \<Rightarrow> 'e step" where
  "with_while test block = scoped (WhileBuilder_node test) plain_exit block"

definition with_try :: "'e step list \<Rightarrow> 'e step" where
  "with_try block = scoped TryBuilder_node plain_exit block"

definition with_except :: "'e option \<Rightarrow> string option \<Rightarrow> 'e step list \<Rightarrow> 'e step" where
  "with_except exc_type name block =
     scoped (ExceptBuilder_node exc_type name) ExceptBuilder_exit block"

definition with_finally :: "'e step list \<Rightarrow> 'e step" where
  "with_finally block = scoped FinallyBuilder_init FinallyBuilder_exit block"


section \<open>Renderer\<close>

text \<open>\<^verbatim>\<open>sep.join(xs)\<close> and the line break \<^verbatim>\<open>"\n"\<close>.\<close>

fun join :: "string \<Rightarrow> string list \<Rightarrow> string" where
  "join sep [] = []"
| "join sep [x] = x"
| "join sep (x # y # ys) = x @ sep @ join sep (y # ys)"

definition newline :: string where
  "newline = [CHR 0x0A]"

text \<open>
  \<^verbatim>\<open>CodeGenerator\<close> has two attributes.  \<^verbatim>\<open>indent_level\<close> is a Python integer that
  the statement rules increment before a body and decrement after it; the model passes
  the generator through every call and returns it, as the object is mutated in place.
\<close>

record code_generator =
  indent_char :: string
  indent_level :: int

definition CodeGenerator_init :: "string \<Rightarrow> code_generator" where
  "CodeGenerator_init ic = \<lparr>indent_char = ic, indent_level = 0\<rparr>"

text \<open>
  \<^verbatim>\<open>self.indent_char * self.indent_level\<close>; a string times a negative number is empty.
\<close>

definition indent_of :: "code_generator \<Rightarrow> string" where
  "indent_of g = concat (replicate (nat (indent_level g)) (indent_char g))"

definition level_up :: "code_generator \<Rightarrow> code_generator" where
  "level_up g = g\<lparr>indent_level := indent_level g + 1\<rparr>"

definition level_down :: "code_generator \<Rightarrow> code_generator" where
  "level_down g = g\<lparr>indent_level := indent_level g - 1\<rparr>"

text \<open>
  The methods that render expression-kind nodes (\<^verbatim>\<open>_generate_expr\<close>,
  \<^verbatim>\<open>_generate_arguments\<close>, \<^verbatim>\<open>_safe_generate_with_item\<close>,
  \<^verbatim>\<open>_generate_comparison_op\<close>) return one string for one node and neither read nor
  write \<^verbatim>\<open>indent_level\<close>.  The statement renderer takes them as a record of functions
  over the expression type, so what is proved of it holds for the repository's
  expression rules and for any others.
\<close>

record 'e expr_rules =
  generate_expr :: "'e \<Rightarrow> string"
  generate_arguments :: "'e \<Rightarrow> string"
  safe_generate_with_item :: "'e \<Rightarrow> string"
  generate_comparison_op :: "'e \<Rightarrow> string"

definition safe_generate_expr :: "'e expr_rules \<Rightarrow> 'e option \<Rightarrow> string" where
  "safe_generate_expr X expr = (case expr of None \<Rightarrow> [] | Some e \<Rightarrow> generate_expr X e)"

text \<open>The decorator lines and the header line of the \<^verbatim>\<open>ClassDef\<close> rule.\<close>

definition class_header ::
  "'e expr_rules \<Rightarrow> string \<Rightarrow> string \<Rightarrow> 'e list \<Rightarrow> 'e list \<Rightarrow> string list" where
  "class_header X indent name bases decorators =
     (let lines = map (\<lambda>decorator. indent @ ''@'' @ generate_expr X decorator) decorators;
          bases_str = (if bases \<noteq> []
                       then ''('' @ join '', '' (map (generate_expr X) bases) @ '')''
                       else [])
      in lines @ [indent @ ''class '' @ name @ bases_str @ '':''])"

text \<open>
  The same for the rule shared by \<^verbatim>\<open>FunctionDef\<close> and \<^verbatim>\<open>AsyncFunctionDef\<close>;
  \<open>def_prefix\<close> is the rule's \<^verbatim>\<open>prefix\<close>, \<^verbatim>\<open>"async def"\<close> or \<^verbatim>\<open>"def"\<close>.
\<close>

definition function_header ::
  "'e expr_rules \<Rightarrow> string \<Rightarrow> string \<Rightarrow> string \<Rightarrow> 'e option \<Rightarrow> 'e option \<Rightarrow> 'e list \<Rightarrow>
     'e list \<Rightarrow> string list" where
  "function_header X indent def_prefix name args returns decorator_list type_params =
     (let lines = map (\<lambda>decorator. indent @ ''@'' @ generate_expr X decorator) decorator_list;
          args_str = (case args of None \<Rightarrow> [] | Some a \<Rightarrow> generate_arguments X a);
          returns_str = (case returns of None \<Rightarrow> []
                         | Some r \<Rightarrow> '' -> '' @ safe_generate_expr X returns);
          type_params_str = (if type_params \<noteq> []
                             then ''['' @ join '', '' (map (generate_expr X) type_params) @ '']''
                             else [])
      in lines @
         [indent @ def_prefix @ '' '' @ name @ type_params_str @ ''('' @ args_str @ '')'' @
          returns_str @ '':''])"

text \<open>
  The header line of the \<^verbatim>\<open>ExceptHandler\<close> rule; \<^verbatim>\<open>if node.name\<close> holds for a
  name that is neither \<^verbatim>\<open>None\<close> nor empty.
\<close>

definition except_line :: "'e expr_rules \<Rightarrow> string \<Rightarrow> 'e option \<Rightarrow> string option \<Rightarrow> string" where
  "except_line X indent type name =
     (let type_str =
            (case type of
               Some t \<Rightarrow> safe_generate_expr X type @
                         (case name of None \<Rightarrow> []
                          | Some nm \<Rightarrow> if nm \<noteq> [] then '' as '' @ nm else [])
             | None \<Rightarrow> (case name of None \<Rightarrow> []
                        | Some nm \<Rightarrow> if nm \<noteq> [] then '' '' @ nm else []))
      in indent @ ''except'' @ (if type_str \<noteq> [] then '' '' @ type_str else []) @ '':'')"


text \<open>
  \<^verbatim>\<open>_generate_node\<close>, \<^verbatim>\<open>_generate_nodes\<close> and the two loop shapes they contain.
  \<open>generate_lines\<close> is the loop of \<^verbatim>\<open>_generate_nodes\<close>, which renders the entries that
  are \<^verbatim>\<open>BaseNode\<close>s and keeps the non-empty results; \<open>generate_each\<close> is the loop
  \<^verbatim>\<open>for x in xs: lines.append(self._generate_node(x))\<close> of the \<^verbatim>\<open>If\<close>, \<^verbatim>\<open>Try\<close> and
  \<^verbatim>\<open>Match\<close> rules, which keeps every result.  The equations of \<open>generate_node\<close> follow
  the order of the \<^verbatim>\<open>isinstance\<close> chain; the last five kinds reach its final
  \<^verbatim>\<open>else\<close>.
\<close>

fun generate_node :: "'e expr_rules \<Rightarrow> code_generator \<Rightarrow> 'e node \<Rightarrow> string \<times> code_generator"
  and generate_nodes ::
    "'e expr_rules \<Rightarrow> code_generator \<Rightarrow> 'e node list \<Rightarrow> string \<times> code_generator"
  and generate_lines ::
    "'e expr_rules \<Rightarrow> code_generator \<Rightarrow> 'e node list \<Rightarrow> string list \<times> code_generator"
  and generate_each ::
    "'e expr_rules \<Rightarrow> code_generator \<Rightarrow> 'e node list \<Rightarrow> string list \<times> code_generator"
where
  "generate_node X g (Import names) =
     (indent_of g @ ''import '' @ join '', '' (map (generate_expr X) names), g)"
| "generate_node X g (ImportFrom module names level) =
     (let level_str = replicate (nat (case level of None \<Rightarrow> 0 | Some k \<Rightarrow> k)) (CHR ''.'');
          names_str = join '', '' (map (generate_expr X) names)
      in (indent_of g @ ''from '' @ level_str @ module @ '' import '' @ names_str, g))"
| "generate_node X g (ImportGroup imports) = generate_nodes X g imports"
| "generate_node X g (ClassDef name bases keywords body decorators) =
     (let lines = class_header X (indent_of g) name bases decorators;
          g = level_up g;
          (body_code, g) = generate_nodes X g body;
          lines = lines @ [body_code];
          g = level_down g
      in (join newline lines, g))"
| "generate_node X g (FunctionDef name args body returns decorator_list type_params) =
     (let lines = function_header X (indent_of g) ''def'' name args returns decorator_list
                    type_params;
          g = level_up g;
          (body_code, g) = generate_nodes X g body;
          lines = lines @ [body_code];
          g = level_down g
      in (join newline lines, g))"
| "generate_node X g (AsyncFunctionDef name args body returns decorator_list type_params) =
     (let lines = function_header X (indent_of g) ''async def'' name args returns
                    decorator_list type_params;
          g = level_up g;
          (body_code, g) = generate_nodes X g body;
          lines = lines @ [body_code];
          g = level_down g
      in (join newline lines, g))"
| "generate_node X g (IfNode test body or_else) =
     (let lines = [indent_of g @ ''if '' @ safe_generate_expr X test @ '':''];
          g = level_up g;
          (body_code, g) = generate_nodes X g body;
          lines = lines @ [body_code];
          g = level_down g;
          (elif_codes, g) = generate_each X g or_else;
          lines = lines @ elif_codes
      in (join newline lines, g))"
| "generate_node X g (Elif test body) =
     (let lines = [indent_of g @ ''elif '' @ safe_generate_expr X test @ '':''];
          g = level_up g;
          (body_code, g) = generate_nodes X g body;
          lines = lines @ [body_code];
          g = level_down g
      in (join newline lines, g))"
| "generate_node X g (Else body) =
     (let lines = [indent_of g @ ''else:''];
          g = level_up g;
          (body_code, g) = generate_nodes X g body;
          lines = lines @ [body_code];
          g = level_down g
      in (join newline lines, g))"
| "generate_node X g (For target iter body or_else) =
     (let indent = indent_of g;
          lines = [indent @ ''for '' @ safe_generate_expr X target @ '' in '' @
                   safe_generate_expr X iter @ '':''];
          g = level_up g;
          (body_code, g) = generate_nodes X g body;
          lines = lines @ [body_code];
          g = level_down g
      in if or_else \<noteq> [] then
           (let lines = lines @ [indent @ ''else:''];
                g = level_up g;
                (else_code, g) = generate_nodes X g or_else;
                lines = lines @ [else_code];
                g = level_down g
            in (join newline lines, g))
         else (join newline lines, g))"
| "generate_node X g (AsyncFor target iter body or_else) =
     (let indent = indent_of g;
          lines = [indent @ ''async for '' @ safe_generate_expr X target @ '' in '' @
                   safe_generate_expr X iter @ '':''];
          g = level_up g;
          (body_code, g) = generate_nodes X g body;
          lines = lines @ [body_code];
          g = level_down g
      in if or_else \<noteq> [] then
           (let lines = lines @ [indent @ ''else:''];
                g = level_up g;
                (else_code, g) = generate_nodes X g or_else;
                lines = lines @ [else_code];
                g = level_down g
            in (join newline lines, g))
         else (join newline lines, g))"
| "generate_node X g (While test body or_else) =
     (let indent = indent_of g;
          lines = [indent @ ''while '' @ safe_generate_expr X test @ '':''];
          g = level_up g;
          (body_code, g) = generate_nodes X g body;
          lines = lines @ [body_code];
          g = level_down g
      in if or_else \<noteq> [] then
           (let lines = lines @ [indent @ ''else:''];
                g = level_up g;
                (else_code, g) = generate_nodes X g or_else;
                lines = lines @ [else_code];
                g = level_down g
            in (join newline lines, g))
         else (join newline lines, g))"
| "generate_node X g (With items body) =
     (let items_str = join '', '' (map (safe_generate_with_item X) items);
          lines = [indent_of g @ ''with '' @ items_str @ '':''];
          g = level_up g;
          (body_code, g) = generate_nodes X g body;
          lines = lines @ [body_code];
          g = level_down g
      in (join newline lines, g))"
| "generate_node X g (Try body handlers or_else finalbody) =
     (let indent = indent_of g;
          lines = [indent @ ''try:''];
          g = level_up g;
          (body_code, g) = generate_nodes X g body;
          lines = lines @ [body_code];
          g = level_down g;
          (handler_codes, g) = generate_each X g handlers;
          lines = lines @ handler_codes;
          (lines, g) =
            (if or_else \<noteq> [] then
               (let lines = lines @ [indent @ ''else:''];
                    g = level_up g;
                    (else_code, g) = generate_nodes X g or_else;
                    lines = lines @ [else_code];
                    g = level_down g
                in (lines, g))
             else (lines, g))
      in if finalbody \<noteq> [] then
           (let lines = lines @ [indent @ ''finally:''];
                g = level_up g;
                (finally_code, g) = generate_nodes X g finalbody;
                lines = lines @ [finally_code];
                g = level_down g
            in (join newline lines, g))
         else (join newline lines, g))"
| "generate_node X g (Match subject cases) =
     (let lines = [indent_of g @ ''match '' @ safe_generate_expr X subject @ '':''];
          g = level_up g;
          (case_codes, g) = generate_each X g cases;
          lines = lines @ case_codes;
          g = level_down g
      in (join newline lines, g))"
| "generate_node X g (MatchCase pattern guard body) =
     (let guard_str = (case guard of None \<Rightarrow> []
                       | Some gd \<Rightarrow> '' if '' @ safe_generate_expr X guard);
          lines = [indent_of g @ ''case '' @ safe_generate_expr X pattern @ guard_str @ '':''];
          g = level_up g;
          (body_code, g) = generate_nodes X g body;
          lines = lines @ [body_code];
          g = level_down g
      in (join newline lines, g))"
| "generate_node X g (Expr val) = (indent_of g @ safe_generate_expr X val, g)"
| "generate_node X g (Assign targets val comment) =
     (indent_of g @ join '' = '' (map (generate_expr X) targets) @ '' = '' @
      safe_generate_expr X val, g)"
| "generate_node X g (AugAssign target op val comment) =
     (let op_str = (case op of None \<Rightarrow> [] | Some o' \<Rightarrow> generate_comparison_op X o')
      in (indent_of g @ safe_generate_expr X target @ '' '' @ op_str @ ''= '' @
          safe_generate_expr X val, g))"
| "generate_node X g (AnnAssign target annotation simple comment val) =
     (let value_str = (case val of None \<Rightarrow> []
                       | Some v \<Rightarrow> '' = '' @ safe_generate_expr X val)
      in (indent_of g @ target @ '': '' @ safe_generate_expr X annotation @ value_str, g))"
| "generate_node X g (Return val) =
     (case val of Some v \<Rightarrow> (indent_of g @ ''return '' @ safe_generate_expr X val, g)
      | None \<Rightarrow> (indent_of g @ ''return'', g))"
| "generate_node X g (Yield val) =
     (case val of Some v \<Rightarrow> (indent_of g @ ''yield '' @ safe_generate_expr X val, g)
      | None \<Rightarrow> (indent_of g @ ''yield'', g))"
| "generate_node X g (Await val) = (indent_of g @ ''await '' @ safe_generate_expr X val, g)"
| "generate_node X g (Delete targets) =
     (indent_of g @ ''del '' @ join '', '' (map (generate_expr X) targets), g)"
| "generate_node X g (Global names) = (indent_of g @ ''global '' @ join '', '' names, g)"
| "generate_node X g (Nonlocal names) = (indent_of g @ ''nonlocal '' @ join '', '' names, g)"
| "generate_node X g (Assert test msg) =
     (case msg of
        Some m \<Rightarrow> (indent_of g @ ''assert '' @ safe_generate_expr X test @ '', '' @
                   safe_generate_expr X msg, g)
      | None \<Rightarrow> (indent_of g @ ''assert '' @ safe_generate_expr X test, g))"
| "generate_node X g (Raise exc cause) =
     (case exc of
        Some e \<Rightarrow>
          (case cause of
             Some c \<Rightarrow> (indent_of g @ ''raise '' @ safe_generate_expr X exc @ '' from '' @
                        safe_generate_expr X cause, g)
           | None \<Rightarrow> (indent_of g @ ''raise '' @ safe_generate_expr X exc, g))
      | None \<Rightarrow> (indent_of g @ ''raise'', g))"
| "generate_node X g Pass = (indent_of g @ ''pass'', g)"
| "generate_node X g Break = (indent_of g @ ''break'', g)"
| "generate_node X g Continue = (indent_of g @ ''continue'', g)"
| "generate_node X g (Comment text) =
     (if text \<noteq> [] then (indent_of g @ ''# '' @ text, g) else ([], g))"
| "generate_node X g (ExceptHandler type name body) =
     (let lines = [except_line X (indent_of g) type name];
          g = level_up g;
          (body_code, g) = generate_nodes X g body;
          lines = lines @ [body_code];
          g = level_down g
      in (join newline lines, g))"
| "generate_node X g (Module body) = (indent_of g @ ''# Unknown node: Module'', g)"
| "generate_node X g (Finally body) = (indent_of g @ ''# Unknown node: Finally'', g)"
| "generate_node X g (Other k) = (indent_of g @ ''# Unknown node: '' @ k, g)"
| "generate_node X g (FinallyBuilder temp_body) =
     (indent_of g @ ''# Unknown node: FinallyBuilder'', g)"
| "generate_nodes X g nodes =
     (let (lines, g) = generate_lines X g nodes in (join newline lines, g))"
| "generate_lines X g [] = ([], g)"
| "generate_lines X g (node # nodes) =
     (if is_BaseNode node then
        (let (code, g) = generate_node X g node;
             (lines, g) = generate_lines X g nodes
         in ((if code \<noteq> [] then [code] else []) @ lines, g))
      else generate_lines X g nodes)"
| "generate_each X g [] = ([], g)"
| "generate_each X g (x # xs) =
     (let (code, g) = generate_node X g x;
          (codes, g) = generate_each X g xs
      in (code # codes, g))"


subsection \<open>Expression rules\<close>

text \<open>
  The expression-kind nodes used below and the rules \<^verbatim>\<open>_generate_expr\<close>,
  \<^verbatim>\<open>_generate_arguments\<close>, \<^verbatim>\<open>_safe_generate_with_item\<close> and
  \<^verbatim>\<open>_generate_comparison_op\<close> have for them.  The datatype covers the classes
  \<^verbatim>\<open>Name\<close>, \<^verbatim>\<open>Alias\<close>, \<^verbatim>\<open>Call\<close>, \<^verbatim>\<open>Keyword\<close>, \<^verbatim>\<open>Attribute\<close>, \<^verbatim>\<open>Subscript\<close>,
  \<^verbatim>\<open>Await\<close> (\<open>AwaitExpr\<close>), \<^verbatim>\<open>Arg\<close>, \<^verbatim>\<open>Starred\<close>, \<^verbatim>\<open>TypeParam\<close>, \<^verbatim>\<open>Arguments\<close>,
  \<^verbatim>\<open>WithItem\<close> and \<^verbatim>\<open>Lambda\<close>, with the fields in declaration order; the other
  expression classes are outside this fragment.
\<close>

datatype expr =
    Name string
  | Alias string "string option"
  | Call "expr option" "expr list" "expr list"
  | Keyword "string option" "expr option"
  | Attribute "expr option" string
  | Subscript "expr option" "expr option"
  | AwaitExpr "expr option"
  | Arg string "expr option" "expr option"
  | Starred "expr option"
  | TypeParam string "expr option"
  | Arguments "expr list" "expr option" "expr list" "expr option list" "expr option"
      "expr list" "expr list"
  | WithItem "expr option" "expr option"
  | Lambda "expr option" "expr option"

text \<open>
  \<^verbatim>\<open>repr\<close> of a string made of ASCII characters and printable characters beyond
  ASCII: single quotes unless the string has a single quote and no double quote; the
  quote and the backslash escaped; tab, line feed and carriage return as \<^verbatim>\<open>\t\<close>,
  \<^verbatim>\<open>\n\<close>, \<^verbatim>\<open>\r\<close>; the other control characters as \<^verbatim>\<open>\xNN\<close>.
\<close>

definition hex_digit :: "nat \<Rightarrow> char" where
  "hex_digit n = ''0123456789abcdef'' ! (n mod 16)"

definition repr_char :: "char \<Rightarrow> char \<Rightarrow> string" where
  "repr_char q c =
     (if c = q \<or> c = CHR 0x5C then [CHR 0x5C, c]
      else if c = CHR 0x09 then [CHR 0x5C, CHR ''t'']
      else if c = CHR 0x0A then [CHR 0x5C, CHR ''n'']
      else if c = CHR 0x0D then [CHR 0x5C, CHR ''r'']
      else if (of_char c :: nat) < 32 \<or> c = CHR 0x7F
        then [CHR 0x5C, CHR ''x'', hex_digit (of_char c div 16), hex_digit (of_char c)]
      else [c])"

definition py_repr :: "string \<Rightarrow> string" where
  "py_repr s =
     (let q = (if CHR 0x27 \<in> set s \<and> CHR 0x22 \<notin> set s then CHR 0x22 else CHR 0x27)
      in [q] @ concat (map (repr_char q) s) @ [q])"

text \<open>
  \<^verbatim>\<open>str(node)\<close>, the \<^verbatim>\<open>__repr__\<close> that \<^verbatim>\<open>@dataclass\<close> generates for each class:
  the class name and every field as \<^verbatim>\<open>name=repr(value)\<close>.
\<close>

fun repr_expr :: "expr \<Rightarrow> string"
  and repr_opt :: "expr option \<Rightarrow> string"
  and repr_list :: "expr list \<Rightarrow> string list"
  and repr_opt_list :: "expr option list \<Rightarrow> string list"
where
  "repr_expr (Name i) = ''Name(id='' @ py_repr i @ '')''"
| "repr_expr (Alias name asname) =
     ''Alias(name='' @ py_repr name @ '', asname='' @
     (case asname of None \<Rightarrow> ''None'' | Some a \<Rightarrow> py_repr a) @ '')''"
| "repr_expr (Call func args keywords) =
     ''Call(func='' @ repr_opt func @ '', args=['' @ join '', '' (repr_list args) @
     ''], keywords=['' @ join '', '' (repr_list keywords) @ ''])''"
| "repr_expr (Keyword arg val) =
     ''Keyword(arg='' @ (case arg of None \<Rightarrow> ''None'' | Some a \<Rightarrow> py_repr a) @
     '', value='' @ repr_opt val @ '')''"
| "repr_expr (Attribute val attr) =
     ''Attribute(value='' @ repr_opt val @ '', attr='' @ py_repr attr @ '')''"
| "repr_expr (Subscript val slice) =
     ''Subscript(value='' @ repr_opt val @ '', slice='' @ repr_opt slice @ '')''"
| "repr_expr (AwaitExpr val) = ''Await(value='' @ repr_opt val @ '')''"
| "repr_expr (Arg arg annotation dflt) =
     ''Arg(arg='' @ py_repr arg @ '', annotation='' @ repr_opt annotation @
     '', default='' @ repr_opt dflt @ '')''"
| "repr_expr (Starred val) = ''Starred(value='' @ repr_opt val @ '')''"
| "repr_expr (TypeParam name bound) =
     ''TypeParam(name='' @ py_repr name @ '', bound='' @ repr_opt bound @ '')''"
| "repr_expr (Arguments args vararg kwonlyargs kw_defaults kwarg defaults posonlyargs) =
     ''Arguments(args=['' @ join '', '' (repr_list args) @
     ''], vararg='' @ repr_opt vararg @
     '', kwonlyargs=['' @ join '', '' (repr_list kwonlyargs) @
     ''], kw_defaults=['' @ join '', '' (repr_opt_list kw_defaults) @
     ''], kwarg='' @ repr_opt kwarg @
     '', defaults=['' @ join '', '' (repr_list defaults) @
     ''], posonlyargs=['' @ join '', '' (repr_list posonlyargs) @ ''])''"
| "repr_expr (WithItem context_expr optional_vars) =
     ''WithItem(context_expr='' @ repr_opt context_expr @
     '', optional_vars='' @ repr_opt optional_vars @ '')''"
| "repr_expr (Lambda args body) =
     ''Lambda(args='' @ repr_opt args @ '', body='' @ repr_opt body @ '')''"
| "repr_opt None = ''None''"
| "repr_opt (Some e) = repr_expr e"
| "repr_list [] = []"
| "repr_list (e # es) = repr_expr e # repr_list es"
| "repr_opt_list [] = []"
| "repr_opt_list (e # es) = repr_opt e # repr_opt_list es"

text \<open>
  \<^verbatim>\<open>_generate_expr\<close> on the fragment, with \<^verbatim>\<open>_safe_generate_expr\<close> (\<open>expr_opt\<close>) and
  the loops over argument lists.  In the keyword loop of the \<^verbatim>\<open>Call\<close> rule an entry
  that is neither a \<^verbatim>\<open>Keyword\<close> nor a \<^verbatim>\<open>dict\<close> adds nothing, and
  \<^verbatim>\<open>f"{kw.arg}=..."\<close> prints a missing name as \<^verbatim>\<open>None\<close>.  \<^verbatim>\<open>Keyword\<close>,
  \<^verbatim>\<open>Arguments\<close> and \<^verbatim>\<open>WithItem\<close> have no rule and reach the final \<^verbatim>\<open>str(expr)\<close>.
  The \<^verbatim>\<open>Lambda\<close> rule returns no text at all: its first test,
  \<^verbatim>\<open>isinstance(expr.args, Arguments)\<close>, raises (see \<open>expr_error\<close>); the empty text
  stands for the value that is never returned.
\<close>

fun expr_text :: "expr \<Rightarrow> string"
  and expr_opt :: "expr option \<Rightarrow> string"
  and expr_texts :: "expr list \<Rightarrow> string list"
  and keyword_texts :: "expr list \<Rightarrow> string list"
where
  "expr_text (Name i) = i"
| "expr_text (Alias name asname) =
     (case asname of None \<Rightarrow> name
      | Some a \<Rightarrow> if a \<noteq> [] then name @ '' as '' @ a else name)"
| "expr_text (Call func args keywords) =
     expr_opt func @ ''('' @ join '', '' (expr_texts args @ keyword_texts keywords) @ '')''"
| "expr_text (Keyword arg val) = repr_expr (Keyword arg val)"
| "expr_text (Attribute val attr) = expr_opt val @ ''.'' @ attr"
| "expr_text (Subscript val slice) = expr_opt val @ ''['' @ expr_opt slice @ '']''"
| "expr_text (AwaitExpr val) = ''await '' @ expr_opt val"
| "expr_text (Arg arg annotation dflt) =
     (case annotation of None \<Rightarrow> arg | Some a \<Rightarrow> arg @ '': '' @ expr_opt annotation)"
| "expr_text (Starred val) = ''*'' @ expr_opt val"
| "expr_text (TypeParam name bound) =
     (case bound of None \<Rightarrow> name | Some b \<Rightarrow> name @ '': '' @ expr_opt bound)"
| "expr_text (Arguments args vararg kwonlyargs kw_defaults kwarg defaults posonlyargs) =
     repr_expr (Arguments args vararg kwonlyargs kw_defaults kwarg defaults posonlyargs)"
| "expr_text (WithItem context_expr optional_vars) =
     repr_expr (WithItem context_expr optional_vars)"
| "expr_text (Lambda args body) = []"
| "expr_opt None = []"
| "expr_opt (Some e) = expr_text e"
| "expr_texts [] = []"
| "expr_texts (e # es) = expr_text e # expr_texts es"
| "keyword_texts [] = []"
| "keyword_texts (Keyword arg val # kws) =
     ((case arg of None \<Rightarrow> ''None'' | Some a \<Rightarrow> a) @ ''='' @ expr_opt val) # keyword_texts kws"
| "keyword_texts (kw # kws) = keyword_texts kws"

text \<open>\<^verbatim>\<open>_generate_arguments\<close>: empty for anything that is not an \<^verbatim>\<open>Arguments\<close>.\<close>

fun arguments_text :: "expr \<Rightarrow> string" where
  "arguments_text (Arguments args vararg kwonlyargs kw_defaults kwarg defaults posonlyargs) =
     (let parts = expr_texts args;
          parts = (if kwonlyargs \<noteq> []
                   then (if parts = [] then [''*''] else parts) @ expr_texts kwonlyargs
                   else parts)
      in join '', '' parts)"
| "arguments_text e = []"

text \<open>\<^verbatim>\<open>_safe_generate_with_item\<close> with \<^verbatim>\<open>_generate_with_item\<close>.\<close>

fun with_item_text :: "expr \<Rightarrow> string" where
  "with_item_text (WithItem context_expr optional_vars) =
     (case optional_vars of
        Some v \<Rightarrow> expr_opt context_expr @ '' as '' @ expr_text v
      | None \<Rightarrow> expr_opt context_expr)"
| "with_item_text e = repr_expr e"

text \<open>
  \<^verbatim>\<open>_generate_comparison_op\<close>, as an f-string prints its result: a \<^verbatim>\<open>Name\<close> gives
  its identifier; for the other classes of the fragment the result is the class
  attribute \<^verbatim>\<open>__kw__\<close>, which is \<^verbatim>\<open>"await"\<close> for \<^verbatim>\<open>Await\<close>, \<^verbatim>\<open>"lambda"\<close> for
  \<^verbatim>\<open>Lambda\<close>, and the \<^verbatim>\<open>None\<close> of \<^verbatim>\<open>BaseNode\<close> for the rest.
\<close>

fun comparison_op_text :: "expr \<Rightarrow> string" where
  "comparison_op_text (Name i) = i"
| "comparison_op_text (AwaitExpr val) = ''await''"
| "comparison_op_text (Lambda args body) = ''lambda''"
| "comparison_op_text e = ''None''"

definition pycraft_rules :: "expr expr_rules" where
  "pycraft_rules =
     \<lparr>generate_expr = expr_text, generate_arguments = arguments_text,
      safe_generate_with_item = with_item_text, generate_comparison_op = comparison_op_text\<rparr>"

subsection \<open>Exceptions raised while rendering\<close>

text \<open>
  The statement rules raise nothing themselves; a call of \<^verbatim>\<open>_generate_nodes\<close> raises
  when one of the expression methods it reaches raises.  \<open>rule_failures\<close> gives, for
  each of the four methods, the exception it raises on a node (\<open>None\<close> when it returns
  its text); like the texts, it is a parameter of the statement level.
\<close>

record 'e rule_failures =
  expr_raises :: "'e \<Rightarrow> py_error option"
  arguments_raises :: "'e \<Rightarrow> py_error option"
  with_item_raises :: "'e \<Rightarrow> py_error option"
  comparison_op_raises :: "'e \<Rightarrow> py_error option"

text \<open>The first of two steps that raises.\<close>

definition otherwise :: "'a option \<Rightarrow> 'a option \<Rightarrow> 'a option" where
  "otherwise a b = (case a of Some x \<Rightarrow> Some x | None \<Rightarrow> b)"

text \<open>
  On the fragment: \<^verbatim>\<open>_generate_expr\<close> imports the classes it tests inside the
  function, \<^verbatim>\<open>Arguments\<close> is not among them, and the module imports it under
  \<^verbatim>\<open>TYPE_CHECKING\<close> only.  So the \<^verbatim>\<open>Lambda\<close> rule raises \<^verbatim>\<open>NameError\<close> at
  \<^verbatim>\<open>isinstance(expr.args, Arguments)\<close>, and so does every rule that renders a
  sub-expression holding a \<^verbatim>\<open>Lambda\<close>.  The sub-expressions are visited in the order
  the rules render them; a node that is printed with \<^verbatim>\<open>str(expr)\<close> reaches no rule.
\<close>

fun expr_error :: "expr \<Rightarrow> py_error option"
  and expr_opt_error :: "expr option \<Rightarrow> py_error option"
  and exprs_error :: "expr list \<Rightarrow> py_error option"
  and keywords_error :: "expr list \<Rightarrow> py_error option"
where
  "expr_error (Name i) = None"
| "expr_error (Alias name asname) = None"
| "expr_error (Call func args keywords) =
     otherwise (expr_opt_error func) (otherwise (exprs_error args) (keywords_error keywords))"
| "expr_error (Keyword arg val) = None"
| "expr_error (Attribute val attr) = expr_opt_error val"
| "expr_error (Subscript val slice) = otherwise (expr_opt_error val) (expr_opt_error slice)"
| "expr_error (AwaitExpr val) = expr_opt_error val"
| "expr_error (Arg arg annotation dflt) = expr_opt_error annotation"
| "expr_error (Starred val) = expr_opt_error val"
| "expr_error (TypeParam name bound) = expr_opt_error bound"
| "expr_error (Arguments args vararg kwonlyargs kw_defaults kwarg defaults posonlyargs) = None"
| "expr_error (WithItem context_expr optional_vars) = None"
| "expr_error (Lambda args body) = Some (NameError ''Arguments'')"
| "expr_opt_error None = None"
| "expr_opt_error (Some e) = expr_error e"
| "exprs_error [] = None"
| "exprs_error (e # es) = otherwise (expr_error e) (exprs_error es)"
| "keywords_error [] = None"
| "keywords_error (Keyword arg val # kws) = otherwise (expr_opt_error val) (keywords_error kws)"
| "keywords_error (kw # kws) = keywords_error kws"

fun arguments_error :: "expr \<Rightarrow> py_error option" where
  "arguments_error (Arguments args vararg kwonlyargs kw_defaults kwarg defaults posonlyargs) =
     otherwise (exprs_error args) (exprs_error kwonlyargs)"
| "arguments_error e = None"

fun with_item_error :: "expr \<Rightarrow> py_error option" where
  "with_item_error (WithItem context_expr optional_vars) =
     otherwise (expr_opt_error context_expr) (expr_opt_error optional_vars)"
| "with_item_error e = None"

definition pycraft_failures :: "expr rule_failures" where
  "pycraft_failures =
     \<lparr>expr_raises = expr_error, arguments_raises = arguments_error,
      with_item_raises = with_item_error, comparison_op_raises = (\<lambda>op. None)\<rparr>"

text \<open>
  An exception leaves the rule it passes through at once, so no
  \<^verbatim>\<open>self.indent_level -= 1\<close> on its way out is run.  \<open>node_raises F n\<close> is the
  exception that rendering \<open>n\<close> raises, if any, with the number of levels by which
  \<^verbatim>\<open>indent_level\<close> is left above its value at the start.  Each equation visits the
  fields in the order the rule of \<open>generate_node\<close> renders them.
\<close>

definition raised :: "py_error option \<Rightarrow> (py_error \<times> int) option" where
  "raised r = (case r of None \<Rightarrow> None | Some e \<Rightarrow> Some (e, 0))"

definition one_deeper :: "(py_error \<times> int) option \<Rightarrow> (py_error \<times> int) option" where
  "one_deeper r = (case r of None \<Rightarrow> None | Some (e, k) \<Rightarrow> Some (e, k + 1))"

fun first_raised :: "('e \<Rightarrow> py_error option) \<Rightarrow> 'e list \<Rightarrow> (py_error \<times> int) option" where
  "first_raised f [] = None"
| "first_raised f (e # es) = otherwise (raised (f e)) (first_raised f es)"

definition opt_raised :: "('e \<Rightarrow> py_error option) \<Rightarrow> 'e option \<Rightarrow> (py_error \<times> int) option"
  where
  "opt_raised f expr = (case expr of None \<Rightarrow> None | Some e \<Rightarrow> raised (f e))"

fun node_raises :: "'e rule_failures \<Rightarrow> 'e node \<Rightarrow> (py_error \<times> int) option"
  and nodes_raises :: "'e rule_failures \<Rightarrow> 'e node list \<Rightarrow> (py_error \<times> int) option"
  and each_raises :: "'e rule_failures \<Rightarrow> 'e node list \<Rightarrow> (py_error \<times> int) option"
where
  "node_raises F (Import names) = first_raised (expr_raises F) names"
| "node_raises F (ImportFrom module names level) = first_raised (expr_raises F) names"
| "node_raises F (ImportGroup imports) = nodes_raises F imports"
| "node_raises F (ClassDef name bases keywords body decorators) =
     otherwise (first_raised (expr_raises F) decorators)
       (otherwise (first_raised (expr_raises F) bases) (one_deeper (nodes_raises F body)))"
| "node_raises F (FunctionDef name args body returns decorator_list type_params) =
     otherwise (first_raised (expr_raises F) decorator_list)
       (otherwise (opt_raised (arguments_raises F) args)
          (otherwise (opt_raised (expr_raises F) returns)
             (otherwise (first_raised (expr_raises F) type_params)
                (one_deeper (nodes_raises F body)))))"
| "node_raises F (AsyncFunctionDef name args body returns decorator_list type_params) =
     otherwise (first_raised (expr_raises F) decorator_list)
       (otherwise (opt_raised (arguments_raises F) args)
          (otherwise (opt_raised (expr_raises F) returns)
             (otherwise (first_raised (expr_raises F) type_params)
                (one_deeper (nodes_raises F body)))))"
| "node_raises F (IfNode test body or_else) =
     otherwise (opt_raised (expr_raises F) test)
       (otherwise (one_deeper (nodes_raises F body)) (each_raises F or_else))"
| "node_raises F (Elif test body) =
     otherwise (opt_raised (expr_raises F) test) (one_deeper (nodes_raises F body))"
| "node_raises F (Else body) = one_deeper (nodes_raises F body)"
| "node_raises F (For target iter body or_else) =
     otherwise (opt_raised (expr_raises F) target)
       (otherwise (opt_raised (expr_raises F) iter)
          (otherwise (one_deeper (nodes_raises F body)) (one_deeper (nodes_raises F or_else))))"
| "node_raises F (AsyncFor target iter body or_else) =
     otherwise (opt_raised (expr_raises F) target)
       (otherwise (opt_raised (expr_raises F) iter)
          (otherwise (one_deeper (nodes_raises F body)) (one_deeper (nodes_raises F or_else))))"
| "node_raises F (While test body or_else) =
     otherwise (opt_raised (expr_raises F) test)
       (otherwise (one_deeper (nodes_raises F body)) (one_deeper (nodes_raises F or_else)))"
| "node_raises F (With items body) =
     otherwise (first_raised (with_item_raises F) items) (one_deeper (nodes_raises F body))"
| "node_raises F (Try body handlers or_else finalbody) =
     otherwise (one_deeper (nodes_raises F body))
       (otherwise (each_raises F handlers)
          (otherwise (one_deeper (nodes_raises F or_else))
             (one_deeper (nodes_raises F finalbody))))"
| "node_raises F (Match subject cases) =
     otherwise (opt_raised (expr_raises F) subject) (one_deeper (each_raises F cases))"
| "node_raises F (MatchCase pattern guard body) =
     otherwise (opt_raised (expr_raises F) pattern)
       (otherwise (opt_raised (expr_raises F) guard) (one_deeper (nodes_raises F body)))"
| "node_raises F (Expr val) = opt_raised (expr_raises F) val"
| "node_raises F (Assign targets val comment) =
     otherwise (first_raised (expr_raises F) targets) (opt_raised (expr_raises F) val)"
| "node_raises F (AugAssign target op val comment) =
     otherwise (opt_raised (expr_raises F) target)
       (otherwise (opt_raised (comparison_op_raises F) op) (opt_raised (expr_raises F) val))"
| "node_raises F (AnnAssign target annotation simple comment val) =
     otherwise (opt_raised (expr_raises F) annotation) (opt_raised (expr_raises F) val)"
| "node_raises F (Return val) = opt_raised (expr_raises F) val"
| "node_raises F (Yield val) = opt_raised (expr_raises F) val"
| "node_raises F (Await val) = opt_raised (expr_raises F) val"
| "node_raises F (Delete targets) = first_raised (expr_raises F) targets"
| "node_raises F (Assert test msg) =
     otherwise (opt_raised (expr_raises F) test) (opt_raised (expr_raises F) msg)"
| "node_raises F (Raise exc cause) =
     (case exc of None \<Rightarrow> None
      | Some e \<Rightarrow> otherwise (raised (expr_raises F e)) (opt_raised (expr_raises F) cause))"
| "node_raises F (ExceptHandler type name body) =
     otherwise (opt_raised (expr_raises F) type) (one_deeper (nodes_raises F body))"
| "node_raises F (Global names) = None"
| "node_raises F (Nonlocal names) = None"
| "node_raises F Pass = None"
| "node_raises F Break = None"
| "node_raises F Continue = None"
| "node_raises F (Comment text) = None"
| "node_raises F (Module body) = None"
| "node_raises F (Finally body) = None"
| "node_raises F (Other k) = None"
| "node_raises F (FinallyBuilder temp_body) = None"
| "nodes_raises F [] = None"
| "nodes_raises F (node # nodes) =
     (if is_BaseNode node then otherwise (node_raises F node) (nodes_raises F nodes)
      else nodes_raises F nodes)"
| "each_raises F [] = None"
| "each_raises F (x # xs) = otherwise (node_raises F x) (each_raises F xs)"


subsection \<open>The render operation\<close>

text \<open>
  What \<^verbatim>\<open>generate\<close> does outside the generator object: \<^verbatim>\<open>print\<close> appends the
  text and a line break to the console stream, \<^verbatim>\<open>output_path.write_text(code)\<close> makes
  \<^verbatim>\<open>code\<close> the content of the file at \<^verbatim>\<open>output_path\<close>, or raises.  The file system
  is a map from paths to contents.  Two things are the operating system's and
  \<^verbatim>\<open>pathlib\<close>'s, not the repository's, and \<open>generate\<close> takes them as parameters:
  \<open>path_div\<close> is \<^verbatim>\<open>Path(path) / file_name\<close>, and \<open>write_text_raises p\<close> is the
  exception \<^verbatim>\<open>write_text\<close> raises when it opens \<open>p\<close> (\<^verbatim>\<open>FileNotFoundError\<close> for a
  directory that does not exist), in which case nothing is written; \<open>None\<close> when the
  write goes through.
\<close>

record world =
  console :: string
  files :: "string \<Rightarrow> string option"

record os_env =
  path_div :: "string \<Rightarrow> string \<Rightarrow> string"
  write_text_raises :: "string \<Rightarrow> py_error option"

definition file_name_required :: string where
  "file_name_required =
     ''file_name is required when mode='' @ [CHR 0x27] @ ''file'' @ [CHR 0x27]"

text \<open>
  \<^verbatim>\<open>CodeGenerator.generate\<close>.  The result is the returned text or the exception raised,
  with the generator and the world as the call leaves them.  The first statement
  renders the tree; when that raises, nothing below it runs and the counter stays
  where the exception left it.  \<^verbatim>\<open>not file_name\<close> holds for \<^verbatim>\<open>None\<close> and for the
  empty string.
\<close>

definition generate ::
  "'e expr_rules \<Rightarrow> 'e rule_failures \<Rightarrow> os_env \<Rightarrow> code_generator \<Rightarrow> 'e builder \<Rightarrow> string \<Rightarrow>
     string option \<Rightarrow> string \<Rightarrow> world \<Rightarrow> (py_error + string) \<times> code_generator \<times> world" where
  "generate X F E g builder mode file_name path w =
     (case nodes_raises F (root_nodes builder) of
        Some (e, k) \<Rightarrow> (Inl e, g\<lparr>indent_level := indent_level g + k\<rparr>, w)
      | None \<Rightarrow>
          (let (code, g) = generate_nodes X g (root_nodes builder) in
           if mode = ''console'' then (Inr code, g, w\<lparr>console := console w @ code @ newline\<rparr>)
           else if mode = ''file'' then
             (case file_name of
                None \<Rightarrow> (Inl (ValueError file_name_required), g, w)
              | Some name \<Rightarrow>
                  if name = [] then (Inl (ValueError file_name_required), g, w)
                  else (let output_path = path_div E path name in
                        case write_text_raises E output_path of
                          Some e \<Rightarrow> (Inl e, g, w)
                        | None \<Rightarrow>
                            (Inr code, g, w\<lparr>files := (files w)(output_path \<mapsto> code)\<rparr>)))
           else (Inr code, g, w)))"

subsection \<open>The parts of a rendered node\<close>

text \<open>
  The text a call returns, without the generator.
\<close>

definition node_text :: "'e expr_rules \<Rightarrow> code_generator \<Rightarrow> 'e node \<Rightarrow> string" where
  "node_text X g n = fst (generate_node X g n)"

definition nodes_text :: "'e expr_rules \<Rightarrow> code_generator \<Rightarrow> 'e node list \<Rightarrow> string" where
  "nodes_text X g ns = fst (generate_nodes X g ns)"

text \<open>
  The kinds whose rule descends into \<^verbatim>\<open>node.body\<close>: the kinds with a body, less
  \<^verbatim>\<open>Module\<close> and \<^verbatim>\<open>Finally\<close>, which have no rule, and the builder object.
\<close>

fun is_block :: "'e node \<Rightarrow> bool" where
  "is_block (ClassDef _ _ _ _ _) = True"
| "is_block (FunctionDef _ _ _ _ _ _) = True"
| "is_block (AsyncFunctionDef _ _ _ _ _ _) = True"
| "is_block (IfNode _ _ _) = True"
| "is_block (Elif _ _) = True"
| "is_block (Else _) = True"
| "is_block (For _ _ _ _) = True"
| "is_block (AsyncFor _ _ _ _) = True"
| "is_block (While _ _ _) = True"
| "is_block (With _ _) = True"
| "is_block (Try _ _ _ _) = True"
| "is_block (MatchCase _ _ _) = True"
| "is_block (ExceptHandler _ _ _) = True"
| "is_block _ = False"

text \<open>
  \<open>own_lines X indent n\<close>: the lines the rule for \<open>n\<close> writes for the node itself,
  each of them \<^verbatim>\<open>f"{indent}..."\<close>, before it descends anywhere: the decorator lines and
  the header line of a definition, the header line of a block or a match, the one line
  of a simple statement (none for a comment without text), the placeholder line of a
  kind without a rule.  An \<^verbatim>\<open>ImportGroup\<close> has no line of its own.
\<close>

fun own_lines :: "'e expr_rules \<Rightarrow> string \<Rightarrow> 'e node \<Rightarrow> string list" where
  "own_lines X indent (Import names) =
     [indent @ ''import '' @ join '', '' (map (generate_expr X) names)]"
| "own_lines X indent (ImportFrom module names level) =
     [indent @ ''from '' @ replicate (nat (case level of None \<Rightarrow> 0 | Some k \<Rightarrow> k)) (CHR ''.'') @
      module @ '' import '' @ join '', '' (map (generate_expr X) names)]"
| "own_lines X indent (ImportGroup imports) = []"
| "own_lines X indent (ClassDef name bases keywords body decorators) =
     class_header X indent name bases decorators"
| "own_lines X indent (FunctionDef name args body returns decorator_list type_params) =
     function_header X indent ''def'' name args returns decorator_list type_params"
| "own_lines X indent (AsyncFunctionDef name args body returns decorator_list type_params) =
     function_header X indent ''async def'' name args returns decorator_list type_params"
| "own_lines X indent (IfNode test body or_else) =
     [indent @ ''if '' @ safe_generate_expr X test @ '':'']"
| "own_lines X indent (Elif test body) = [indent @ ''elif '' @ safe_generate_expr X test @ '':'']"
| "own_lines X indent (Else body) = [indent @ ''else:'']"
| "own_lines X indent (For target iter body or_else) =
     [indent @ ''for '' @ safe_generate_expr X target @ '' in '' @ safe_generate_expr X iter @
      '':'']"
| "own_lines X indent (AsyncFor target iter body or_else) =
     [indent @ ''async for '' @ safe_generate_expr X target @ '' in '' @
      safe_generate_expr X iter @ '':'']"
| "own_lines X indent (While test body or_else) =
     [indent @ ''while '' @ safe_generate_expr X test @ '':'']"
| "own_lines X indent (With items body) =
     [indent @ ''with '' @ join '', '' (map (safe_generate_with_item X) items) @ '':'']"
| "own_lines X indent (Try body handlers or_else finalbody) = [indent @ ''try:'']"
| "own_lines X indent (Match subject cases) =
     [indent @ ''match '' @ safe_generate_expr X subject @ '':'']"
| "own_lines X indent (MatchCase pattern guard body) =
     [indent @ ''case '' @ safe_generate_expr X pattern @
      (case guard of None \<Rightarrow> [] | Some gd \<Rightarrow> '' if '' @ safe_generate_expr X guard) @ '':'']"
| "own_lines X indent (Expr val) = [indent @ safe_generate_expr X val]"
| "own_lines X indent (Assign targets val comment) =
     [indent @ join '' = '' (map (generate_expr X) targets) @ '' = '' @ safe_generate_expr X val]"
| "own_lines X indent (AugAssign target op val comment) =
     [indent @ safe_generate_expr X target @ '' '' @
      (case op of None \<Rightarrow> [] | Some o' \<Rightarrow> generate_comparison_op X o') @ ''= '' @
      safe_generate_expr X val]"
| "own_lines X indent (AnnAssign target annotation simple comment val) =
     [indent @ target @ '': '' @ safe_generate_expr X annotation @
      (case val of None \<Rightarrow> [] | Some v \<Rightarrow> '' = '' @ safe_generate_expr X val)]"
| "own_lines X indent (Return val) =
     [indent @ (case val of None \<Rightarrow> ''return'' | Some v \<Rightarrow> ''return '' @ safe_generate_expr X val)]"
| "own_lines X indent (Yield val) =
     [indent @ (case val of None \<Rightarrow> ''yield'' | Some v \<Rightarrow> ''yield '' @ safe_generate_expr X val)]"
| "own_lines X indent (Await val) = [indent @ ''await '' @ safe_generate_expr X val]"
| "own_lines X indent (Delete targets) =
     [indent @ ''del '' @ join '', '' (map (generate_expr X) targets)]"
| "own_lines X indent (Global names) = [indent @ ''global '' @ join '', '' names]"
| "own_lines X indent (Nonlocal names) = [indent @ ''nonlocal '' @ join '', '' names]"
| "own_lines X indent (Assert test msg) =
     [indent @ ''assert '' @ safe_generate_expr X test @
      (case msg of None \<Rightarrow> [] | Some m \<Rightarrow> '', '' @ safe_generate_expr X msg)]"
| "own_lines X indent (Raise exc cause) =
     [indent @
      (case exc of None \<Rightarrow> ''raise''
       | Some e \<Rightarrow> ''raise '' @ safe_generate_expr X exc @
           (case cause of None \<Rightarrow> [] | Some c \<Rightarrow> '' from '' @ safe_generate_expr X cause))]"
| "own_lines X indent Pass = [indent @ ''pass'']"
| "own_lines X indent Break = [indent @ ''break'']"
| "own_lines X indent Continue = [indent @ ''continue'']"
| "own_lines X indent (Comment text) = (if text \<noteq> [] then [indent @ ''# '' @ text] else [])"
| "own_lines X indent (ExceptHandler type name body) = [except_line X indent type name]"
| "own_lines X indent (Module body) = [indent @ ''# Unknown node: Module'']"
| "own_lines X indent (Finally body) = [indent @ ''# Unknown node: Finally'']"
| "own_lines X indent (Other k) = [indent @ ''# Unknown node: '' @ k]"
| "own_lines X indent (FinallyBuilder temp_body) = [indent @ ''# Unknown node: FinallyBuilder'']"

text \<open>
  \<open>clause_parts X g n\<close>: what the rule for \<open>n\<close> appends to \<^verbatim>\<open>lines\<close> after the
  body (for a match and an import group, after the lines of its own): the rendered
  continuation entries of a conditional, the \<^verbatim>\<open>else:\<close> clause of a loop, the handlers
  and the \<^verbatim>\<open>else:\<close> and \<^verbatim>\<open>finally:\<close> clauses of a protected block, the rendered
  cases of a match one level deeper, the kept lines of an import group.
\<close>

definition else_clause :: "'e expr_rules \<Rightarrow> code_generator \<Rightarrow> string \<Rightarrow> 'e node list \<Rightarrow> string list"
  where
  "else_clause X g keyword stmts =
     (if stmts \<noteq> [] then [indent_of g @ keyword, nodes_text X (level_up g) stmts] else [])"

fun clause_parts :: "'e expr_rules \<Rightarrow> code_generator \<Rightarrow> 'e node \<Rightarrow> string list" where
  "clause_parts X g (IfNode test body or_else) = map (node_text X g) or_else"
| "clause_parts X g (For target iter body or_else) = else_clause X g ''else:'' or_else"
| "clause_parts X g (AsyncFor target iter body or_else) = else_clause X g ''else:'' or_else"
| "clause_parts X g (While test body or_else) = else_clause X g ''else:'' or_else"
| "clause_parts X g (Try body handlers or_else finalbody) =
     map (node_text X g) handlers @ else_clause X g ''else:'' or_else @
     else_clause X g ''finally:'' finalbody"
| "clause_parts X g (Match subject cases) = map (node_text X (level_up g)) cases"
| "clause_parts X g (ImportGroup imports) =
     filter (\<lambda>code. code \<noteq> []) (map (node_text X g) (filter is_BaseNode imports))"
| "clause_parts X g n = []"


subsection \<open>Physical lines\<close>

text \<open>
  \<^verbatim>\<open>text.split("\n")\<close>: the physical lines of a text.  A line is blank when it is
  empty.  \<open>single_line s\<close>: \<open>s\<close> has no line break.  \<open>indented p s\<close>: every line of
  \<open>s\<close> that is not blank starts with \<open>p\<close>.
\<close>

fun split_lines :: "string \<Rightarrow> string list" where
  "split_lines [] = [[]]"
| "split_lines (c # cs) =
     (if c = CHR 0x0A then [] # split_lines cs
      else (case split_lines cs of [] \<Rightarrow> [[c]] | l # ls \<Rightarrow> (c # l) # ls))"

definition single_line :: "string \<Rightarrow> bool" where
  "single_line s = (CHR 0x0A \<notin> set s)"

definition indented :: "string \<Rightarrow> string \<Rightarrow> bool" where
  "indented p s = list_all (\<lambda>l. l = [] \<or> prefix p l) (split_lines s)"

text \<open>
  \<open>inline_ok X n\<close>: every line the rules write for \<open>n\<close> and for the nodes rendered
  below it is free of line breaks once the indentation is left out, that is, the names
  in the tree and the fragments the expression rules return for its expressions have no
  line break.
\<close>

fun inline_ok :: "'e expr_rules \<Rightarrow> 'e node \<Rightarrow> bool" where
  "inline_ok X (ImportGroup imports) = list_all (inline_ok X) imports"
| "inline_ok X (ClassDef name bases keywords body decorators) =
     (list_all single_line (class_header X [] name bases decorators) \<and>
      list_all (inline_ok X) body)"
| "inline_ok X (FunctionDef name args body returns decorator_list type_params) =
     (list_all single_line
        (function_header X [] ''def'' name args returns decorator_list type_params) \<and>
      list_all (inline_ok X) body)"
| "inline_ok X (AsyncFunctionDef name args body returns decorator_list type_params) =
     (list_all single_line
        (function_header X [] ''async def'' name args returns decorator_list type_params) \<and>
      list_all (inline_ok X) body)"
| "inline_ok X (IfNode test body or_else) =
     (single_line (safe_generate_expr X test) \<and> list_all (inline_ok X) body \<and>
      list_all (inline_ok X) or_else)"
| "inline_ok X (Elif test body) =
     (single_line (safe_generate_expr X test) \<and> list_all (inline_ok X) body)"
| "inline_ok X (Else body) = list_all (inline_ok X) body"
| "inline_ok X (For target iter body or_else) =
     (single_line (safe_generate_expr X target) \<and> single_line (safe_generate_expr X iter) \<and>
      list_all (inline_ok X) body \<and> list_all (inline_ok X) or_else)"
| "inline_ok X (AsyncFor target iter body or_else) =
     (single_line (safe_generate_expr X target) \<and> single_line (safe_generate_expr X iter) \<and>
      list_all (inline_ok X) body \<and> list_all (inline_ok X) or_else)"
| "inline_ok X (While test body or_else) =
     (single_line (safe_generate_expr X test) \<and> list_all (inline_ok X) body \<and>
      list_all (inline_ok X) or_else)"
| "inline_ok X (With items body) =
     (list_all single_line (own_lines X [] (With items [])) \<and> list_all (inline_ok X) body)"
| "inline_ok X (Try body handlers or_else finalbody) =
     (list_all (inline_ok X) body \<and> list_all (inline_ok X) handlers \<and>
      list_all (inline_ok X) or_else \<and> list_all (inline_ok X) finalbody)"
| "inline_ok X (Match subject cases) =
     (single_line (safe_generate_expr X subject) \<and> list_all (inline_ok X) cases)"
| "inline_ok X (MatchCase pattern guard body) =
     (list_all single_line (own_lines X [] (MatchCase pattern guard [])) \<and>
      list_all (inline_ok X) body)"
| "inline_ok X (ExceptHandler type name body) =
     (single_line (except_line X [] type name) \<and> list_all (inline_ok X) body)"
| "inline_ok X n = list_all single_line (own_lines X [] n)"

text \<open>
  \<open>restores X n\<close>: rendering \<open>n\<close> leaves the generator as it found it, whatever
  \<^verbatim>\<open>indent_level\<close> it started with.
\<close>

definition restores :: "'e expr_rules \<Rightarrow> 'e node \<Rightarrow> bool" where
  "restores X n = (\<forall>g. snd (generate_node X g n) = g)"

text \<open>
  \<open>keeps_indent X n\<close>: when the tree below \<open>n\<close> is free of line breaks and so is
  the indentation unit, every line of the text of \<open>n\<close> that is not blank starts with
  the indentation \<open>n\<close> was rendered at.
\<close>

definition keeps_indent :: "'e expr_rules \<Rightarrow> 'e node \<Rightarrow> bool" where
  "keeps_indent X n =
     (inline_ok X n \<longrightarrow>
      (\<forall>g. single_line (indent_char g) \<longrightarrow> indented (indent_of g) (node_text X g n)))"

section \<open>Properties of the builder\<close>

subsection \<open>The stack after a push\<close>

lemma stack_push [simp]: "stack (push_node b n) = stack b @ [n]"
  by (simp add: push_node_def)

lemma root_nodes_push [simp]: "root_nodes (push_node b n) = root_nodes b"
  by (simp add: push_node_def)

lemma push_node_eq: "push_node \<lparr>root_nodes = r, stack = st\<rparr> n = \<lparr>root_nodes = r, stack = st @ [n]\<rparr>"
  by (simp add: push_node_def)

lemma stack_pop_push [simp]: "stack_pop (push_node b n) = Inr (n, b)"
  by (simp add: stack_pop_def push_node_def)

lemma update_top_push [simp]: "update_top f (push_node b n) = push_node b (f n)"
  by (simp add: update_top_def push_node_def)

lemma append_current_push:
  "append_current (push_node b n) x =
     (if is_BodyNode n then push_node b (body_append n x)
      else push_node (b\<lparr>root_nodes := root_nodes b @ [x]\<rparr>) n)"
  by (simp add: append_current_def)

lemma add_push [simp]:
  "is_BodyNode n \<Longrightarrow> add x (push_node b n) = Inr (push_node b (body_append n x))"
  by (simp add: add_def add_node_def append_current_push)

lemma pop_node_push [simp]:
  "pop_node (push_node b n) = Inr (fill_body n, append_current b (fill_body n))"
  by (simp add: pop_node_def Let_def)

lemma plain_exit_push [simp]: "plain_exit (push_node b n) = Inr (add_node b (fill_body n))"
  by (simp add: plain_exit_def add_node_def)

lemma ElifBuilder_exit_push:
  "ElifBuilder_exit (push_node (push_node b p) n) =
     (if is_If_While_Try p then Inr (push_node b (or_else_extend [fill_body n] p))
      else Inr (append_current (push_node b p) (fill_body n)))"
  by (simp add: ElifBuilder_exit_def Let_def)

lemma ElseBuilder_exit_push:
  "ElseBuilder_exit (push_node (push_node b p) n) =
     (case body_of (fill_body n) of
        Some node_body \<Rightarrow>
          (if is_If_While_Try p then Inr (push_node b (or_else_extend node_body p))
           else Inr (append_current (push_node b p) (fill_body n)))
      | None \<Rightarrow> Inr (append_current (push_node b p) (fill_body n)))"
  by (simp add: ElseBuilder_exit_def Let_def split: option.splits)

lemma CaseBuilder_exit_push:
  "CaseBuilder_exit (push_node (push_node b p) n) =
     (if is_Match p then Inr (push_node b (cases_append (fill_body n) p))
      else Inr (push_node b p))"
  by (simp add: CaseBuilder_exit_def Let_def)

lemma ExceptBuilder_exit_push:
  "ExceptBuilder_exit (push_node (push_node b p) n) =
     (if is_Try p then Inr (push_node b (handlers_append (fill_body n) p))
      else Inr (append_current (push_node b p) (fill_body n)))"
  by (simp add: ExceptBuilder_exit_def Let_def)

lemma FinallyBuilder_exit_push:
  "FinallyBuilder_exit (push_node (push_node b p) (FinallyBuilder fs)) =
     (if is_Try p then Inr (push_node b (finalbody_extend (if fs = [] then [Pass] else fs) p))
      else Inr (push_node b p))"
  by (simp add: FinallyBuilder_exit_def Let_def)

lemma exit_on_single_entry:
  "stack b = [] \<Longrightarrow> CaseBuilder_exit (push_node b n) = Inr b"
  "stack b = [] \<Longrightarrow> ExceptBuilder_exit (push_node b n) = Inr b"
  "stack b = [] \<Longrightarrow> FinallyBuilder_exit (push_node b (FinallyBuilder fs)) = Inr b"
  "stack b = [] \<Longrightarrow>
     ElseBuilder_exit (push_node b n) = Inr (b\<lparr>root_nodes := root_nodes b @ [fill_body n]\<rparr>)"
  "stack b = [] \<Longrightarrow>
     ElifBuilder_exit (push_node b n) = Inr (b\<lparr>root_nodes := root_nodes b @ [fill_body n]\<rparr>)"
  by (simp_all add: CaseBuilder_exit_def ExceptBuilder_exit_def FinallyBuilder_exit_def
      ElseBuilder_exit_def ElifBuilder_exit_def Let_def)

lemma scoped_unfold: "scoped n ex block b = and_then (steps block (push_node b n)) ex"
  by (simp add: scoped_def)

subsection \<open>The placeholder step\<close>

lemma fill_body_simps:
  "fill_body (ClassDef a1 a2 a3 xs a4) = ClassDef a1 a2 a3 (if xs = [] then [Pass] else xs) a4"
  "fill_body (FunctionDef b1 b2 xs b3 b4 b5) =
     FunctionDef b1 b2 (if xs = [] then [Pass] else xs) b3 b4 b5"
  "fill_body (AsyncFunctionDef b1 b2 xs b3 b4 b5) =
     AsyncFunctionDef b1 b2 (if xs = [] then [Pass] else xs) b3 b4 b5"
  "fill_body (IfNode t xs oe) = IfNode t (if xs = [] then [Pass] else xs) oe"
  "fill_body (Elif t xs) = Elif t (if xs = [] then [Pass] else xs)"
  "fill_body (Else xs) = Else (if xs = [] then [Pass] else xs)"
  "fill_body (For t1 t2 xs oe) = For t1 t2 (if xs = [] then [Pass] else xs) oe"
  "fill_body (AsyncFor t1 t2 xs oe) = AsyncFor t1 t2 (if xs = [] then [Pass] else xs) oe"
  "fill_body (While t xs oe) = While t (if xs = [] then [Pass] else xs) oe"
  "fill_body (With its xs) = With its (if xs = [] then [Pass] else xs)"
  "fill_body (Try xs hs oe fb) = Try (if xs = [] then [Pass] else xs) hs oe fb"
  "fill_body (MatchCase p gd xs) = MatchCase p gd (if xs = [] then [Pass] else xs)"
  "fill_body (ExceptHandler ty nm xs) = ExceptHandler ty nm (if xs = [] then [Pass] else xs)"
  "fill_body (Match sj cs) = Match sj cs"
  by (cases xs; simp add: fill_body_def)+

subsection \<open>A run of added statements\<close>

lemma body_of_set_body: "body_of n = Some xs \<Longrightarrow> body_of (set_body n ys) = Some ys"
  by (cases n) simp_all

lemma set_body_set_body: "set_body (set_body n xs) ys = set_body n ys"
  by (cases n) simp_all

lemma set_body_same: "body_of n = Some xs \<Longrightarrow> set_body n xs = n"
  by (cases n) simp_all

lemma steps_append: "steps (fs @ gs) b = and_then (steps fs b) (steps gs)"
proof (induction fs arbitrary: b)
  case Nil
  show ?case by simp
next
  case (Cons f fs)
  show ?case by (cases "f b") (simp_all add: Cons.IH)
qed

lemma steps_adds:
  "body_of n = Some xs \<Longrightarrow>
   steps (map add ys) (push_node b n) = Inr (push_node b (set_body n (xs @ ys)))"
proof (induction ys arbitrary: n xs)
  case Nil
  then show ?case by (simp add: set_body_same)
next
  case (Cons y ys)
  have "body_of (set_body n (xs @ [y])) = Some (xs @ [y])"
    using Cons.prems by (rule body_of_set_body)
  from Cons.IH[OF this] show ?case using Cons.prems
    by (simp add: is_BodyNode_def body_append_def set_body_set_body)
qed

subsection \<open>Conditional with else-if and else\<close>

lemma add_node_top_level:
  "add_node \<lparr>root_nodes = r, stack = []\<rparr> n = \<lparr>root_nodes = r @ [n], stack = []\<rparr>"
  by (simp add: add_node_def append_current_def)

lemma add_node_nested:
  "body_of parent = Some xs \<Longrightarrow>
   add_node \<lparr>root_nodes = r, stack = st @ [parent]\<rparr> n =
     \<lparr>root_nodes = r, stack = st @ [set_body parent (xs @ [n])]\<rparr>"
  by (simp add: add_node_def append_current_def is_BodyNode_def update_top_def body_append_def)

lemma if_elif_else_any_state:
  "with_if t [add s1, with_elif t2 [add s2], with_else [add s3]] b =
     Inr (add_node b (IfNode (Some t) [s1] [Elif (Some t2) [s2], s3]))"
  by (simp add: with_if_def with_elif_def with_else_def scoped_unfold
      IfBuilder_node_def ElifBuilder_node_def ElseBuilder_node_def is_BodyNode_def
      body_append_def fill_body_simps ElifBuilder_exit_push ElseBuilder_exit_push)

text \<open>
  Claim C1.  The builder sequence
  \<^verbatim>\<open>with if_(b, t): b.add_node(s1); with elif_(b, t2): b.add_node(s2); with else_(b): b.add_node(s3)\<close>,
  run on a builder with no open scope and any top-level sequence \<open>r\<close>, ends with no
  open scope and with exactly one node added at the end of the top-level sequence: the
  conditional with body \<open>[s1]\<close> whose continuation list \<^verbatim>\<open>or_else\<close> has exactly
  two entries, first the \<^verbatim>\<open>Elif\<close> node as a whole, with its own test and its own body
  \<open>[s2]\<close>, then the statement \<open>s3\<close> of the else block itself, the \<^verbatim>\<open>Else\<close>
  wrapper being gone.
\<close>

theorem if_elif_else_continuation_list:
  "with_if t [add s1, with_elif t2 [add s2], with_else [add s3]] \<lparr>root_nodes = r, stack = []\<rparr> =
     Inr \<lparr>root_nodes = r @ [IfNode (Some t) [s1] [Elif (Some t2) [s2], s3]], stack = []\<rparr>"
  by (simp only: if_elif_else_any_state add_node_top_level)

subsection \<open>Else after a loop\<close>

text \<open>
  Claim C2.  What \<^verbatim>\<open>ElseBuilder.__exit__\<close> does when the entry below the popped
  \<^verbatim>\<open>Else\<close> is a loop.  Under a \<^verbatim>\<open>While\<close> the statements of the else block (the
  placeholder when there are none) are spliced into the loop's \<^verbatim>\<open>or_else\<close>.  Under a
  \<^verbatim>\<open>For\<close> or an \<^verbatim>\<open>AsyncFor\<close> the test \<^verbatim>\<open>isinstance(parent, (If, While, Try))\<close>
  fails, the fallback appends the \<^verbatim>\<open>Else\<close> node itself to the loop's body, and the
  loop's \<^verbatim>\<open>or_else\<close> stays as it was.
\<close>

theorem else_after_loop:
  "ElseBuilder_exit \<lparr>root_nodes = r, stack = st @ [While test body or_else, Else stmts]\<rparr> =
     Inr \<lparr>root_nodes = r,
          stack = st @ [While test body (or_else @ (if stmts = [] then [Pass] else stmts))]\<rparr>
   \<and> ElseBuilder_exit \<lparr>root_nodes = r, stack = st @ [For target iter body or_else, Else stmts]\<rparr> =
     Inr \<lparr>root_nodes = r,
          stack = st @ [For target iter (body @ [Else (if stmts = [] then [Pass] else stmts)])
                          or_else]\<rparr>
   \<and> ElseBuilder_exit
       \<lparr>root_nodes = r, stack = st @ [AsyncFor target iter body or_else, Else stmts]\<rparr> =
     Inr \<lparr>root_nodes = r,
          stack = st @ [AsyncFor target iter (body @ [Else (if stmts = [] then [Pass] else stmts)])
                          or_else]\<rparr>"
  by (simp add: butlast_append ElseBuilder_exit_def stack_pop_def Let_def fill_body_simps update_top_def
      append_current_def is_BodyNode_def body_append_def)

subsection \<open>Case clauses\<close>

text \<open>
  Claim C3.  Closing a case clause pops it and fills an empty body with the
  placeholder.  When the entry below is the \<^verbatim>\<open>Match\<close> node, the clause, with its
  pattern, its guard and that body, is appended to the \<^verbatim>\<open>cases\<close> of the match.  When
  the entry below is any other node, or when there is no entry below, the clause is
  appended nowhere: the result is not an error, \<^verbatim>\<open>root_nodes\<close> is what it was and
  the stack is what it was without the clause.
\<close>

theorem case_clause_close:
  "CaseBuilder_exit
     \<lparr>root_nodes = r, stack = st @ [Match subject cases, MatchCase pattern guard body]\<rparr> =
     Inr \<lparr>root_nodes = r,
          stack = st @ [Match subject
                          (cases @ [MatchCase pattern guard (if body = [] then [Pass] else body)])]\<rparr>
   \<and> (\<not> is_Match parent \<longrightarrow>
        CaseBuilder_exit \<lparr>root_nodes = r, stack = st @ [parent, MatchCase pattern guard body]\<rparr> =
          Inr \<lparr>root_nodes = r, stack = st @ [parent]\<rparr>)
   \<and> CaseBuilder_exit \<lparr>root_nodes = r, stack = [MatchCase pattern guard body]\<rparr> =
        Inr \<lparr>root_nodes = r, stack = []\<rparr>"
  by (simp add: butlast_append CaseBuilder_exit_def stack_pop_def Let_def fill_body_simps update_top_def)

theorem case_clause_close_witness:
  "\<not> is_Match (IfNode (Some (Name ''x'')) [] [])
   \<and> CaseBuilder_exit
       \<lparr>root_nodes = [Pass],
        stack = [IfNode (Some (Name ''x'')) [] [], MatchCase (Some (Name ''y'')) None [Break]]\<rparr> =
     Inr \<lparr>root_nodes = [Pass], stack = [IfNode (Some (Name ''x'')) [] []]\<rparr>"
  using case_clause_close [of "[Pass]" "[]" "Some (Name ''x'')" "[]" "Some (Name ''y'')" None "[Break]"
      "IfNode (Some (Name ''x'')) [] []"]
  by simp

subsection \<open>Handlers and cleanup of a protected block\<close>

lemma try_sequence_any_state:
  "with_try (map add body_stmts @
             [with_except type1 name1 (map add stmts1), with_except type2 name2 (map add stmts2),
              with_finally (map add cleanup)]) b =
     Inr (add_node b
       (Try (if body_stmts = [] then [Pass] else body_stmts)
            [ExceptHandler type1 name1 (if stmts1 = [] then [Pass] else stmts1),
             ExceptHandler type2 name2 (if stmts2 = [] then [Pass] else stmts2)]
            []
            (if cleanup = [] then [Pass] else cleanup)))"
  by (simp add: with_try_def with_except_def with_finally_def scoped_unfold steps_append steps_adds
       TryBuilder_node_def ExceptBuilder_node_def FinallyBuilder_init_def
       ExceptBuilder_exit_push FinallyBuilder_exit_push fill_body_simps)

lemma finally_close_extends:
  "FinallyBuilder_exit
       \<lparr>root_nodes = r, stack = st @ [Try body handlers or_else finalbody, FinallyBuilder stmts]\<rparr> =
     Inr \<lparr>root_nodes = r,
          stack = st @ [Try body handlers or_else
                          (finalbody @ (if stmts = [] then [Pass] else stmts))]\<rparr>"
  by (simp add: butlast_append FinallyBuilder_exit_def stack_pop_def Let_def update_top_def)

text \<open>
  Claim C5.  The sequence \<^verbatim>\<open>with try_(b):\<close> any number of added statements, two
  \<^verbatim>\<open>with except_(b, ...):\<close> blocks one after the other, one \<^verbatim>\<open>with finally_(b):\<close>
  block, run on a builder with no open scope and any top-level sequence \<open>r\<close>, ends
  with no open scope and with exactly one \<^verbatim>\<open>Try\<close> node added at the end of the
  top-level sequence.  Its \<^verbatim>\<open>handlers\<close> are exactly the two handlers in the order
  they were opened, its \<^verbatim>\<open>finalbody\<close> is exactly the statements added inside the
  cleanup block, in order (a cleanup block with no statement leaves the placeholder),
  and neither depends on how many statements the protected body received.  The second
  part is the close of a cleanup block on a \<^verbatim>\<open>Try\<close> that already has a
  \<^verbatim>\<open>finalbody\<close>: the new statements are added after the old ones.
\<close>

theorem try_handlers_and_cleanup:
  "with_try (map add body_stmts @
             [with_except type1 name1 (map add stmts1), with_except type2 name2 (map add stmts2),
              with_finally (map add cleanup)]) \<lparr>root_nodes = r, stack = []\<rparr> =
     Inr \<lparr>root_nodes = r @
            [Try (if body_stmts = [] then [Pass] else body_stmts)
               [ExceptHandler type1 name1 (if stmts1 = [] then [Pass] else stmts1),
                ExceptHandler type2 name2 (if stmts2 = [] then [Pass] else stmts2)]
               []
               (if cleanup = [] then [Pass] else cleanup)],
          stack = []\<rparr>
   \<and> FinallyBuilder_exit
       \<lparr>root_nodes = r, stack = st @ [Try body handlers or_else finalbody, FinallyBuilder stmts]\<rparr> =
     Inr \<lparr>root_nodes = r,
          stack = st @ [Try body handlers or_else
                          (finalbody @ (if stmts = [] then [Pass] else stmts))]\<rparr>"
  by (simp only: try_sequence_any_state add_node_top_level finally_close_extends)

subsection \<open>Fragments closed with no compatible entry below\<close>

text \<open>
  What the close of a cleanup block, of an else block and of a handler clause does
  when the entry below is not one it attaches to.  A cleanup block is discarded, under
  any node that is not a \<^verbatim>\<open>Try\<close> and on an empty stack: the result is not an error,
  \<^verbatim>\<open>root_nodes\<close> is unchanged and the stack is what it was without the cleanup
  block.  An else block under a node that is not an \<^verbatim>\<open>If\<close>, a \<^verbatim>\<open>While\<close> or a
  \<^verbatim>\<open>Try\<close>, and a handler clause under a node that is not a \<^verbatim>\<open>Try\<close>, are appended
  to the current insertion target, which is the body of the entry below when it has
  one.
\<close>

lemma close_without_compatible_parent:
  "(\<not> is_Try parent \<longrightarrow>
      FinallyBuilder_exit \<lparr>root_nodes = r, stack = st @ [parent, FinallyBuilder stmts]\<rparr> =
        Inr \<lparr>root_nodes = r, stack = st @ [parent]\<rparr>)
   \<and> FinallyBuilder_exit \<lparr>root_nodes = r, stack = [FinallyBuilder stmts]\<rparr> =
        Inr \<lparr>root_nodes = r, stack = []\<rparr>
   \<and> (\<not> is_If_While_Try parent \<and> body_of parent = Some xs \<longrightarrow>
        ElseBuilder_exit \<lparr>root_nodes = r, stack = st @ [parent, Else stmts]\<rparr> =
          Inr \<lparr>root_nodes = r,
               stack = st @ [set_body parent
                               (xs @ [Else (if stmts = [] then [Pass] else stmts)])]\<rparr>)
   \<and> (\<not> is_Try parent \<and> body_of parent = Some xs \<longrightarrow>
        ExceptBuilder_exit \<lparr>root_nodes = r, stack = st @ [parent, ExceptHandler type name stmts]\<rparr> =
          Inr \<lparr>root_nodes = r,
               stack = st @ [set_body parent
                               (xs @ [ExceptHandler type name
                                        (if stmts = [] then [Pass] else stmts)])]\<rparr>)"
  by (simp add: butlast_append FinallyBuilder_exit_def ElseBuilder_exit_def ExceptBuilder_exit_def
      stack_pop_def Let_def fill_body_simps append_current_def is_BodyNode_def update_top_def
      body_append_def)

text \<open>
  Claim C10, at the empty stack.  \<^verbatim>\<open>with except_(b): b.add_node(Break())\<close> on a
  builder with no open scope: \<^verbatim>\<open>ExceptBuilder.__exit__\<close> has no \<^verbatim>\<open>else\<close> branch for
  the empty stack, so the handler clause is appended nowhere and the top-level
  sequence is what it was.  \<^verbatim>\<open>ElseBuilder.__exit__\<close> and \<^verbatim>\<open>ElifBuilder.__exit__\<close>
  have that branch: on an empty stack they append the node to \<^verbatim>\<open>root_nodes\<close>.
\<close>

theorem handler_on_empty_stack_dropped:
  "with_except None None [add Break] \<lparr>root_nodes = r, stack = []\<rparr> =
     Inr \<lparr>root_nodes = r, stack = []\<rparr>
   \<and> ExceptBuilder_exit \<lparr>root_nodes = r, stack = [ExceptHandler type name stmts]\<rparr> =
       Inr \<lparr>root_nodes = r, stack = []\<rparr>
   \<and> ElseBuilder_exit \<lparr>root_nodes = r, stack = [Else stmts]\<rparr> =
       Inr \<lparr>root_nodes = r @ [Else (if stmts = [] then [Pass] else stmts)], stack = []\<rparr>
   \<and> ElifBuilder_exit \<lparr>root_nodes = r, stack = [Elif test stmts]\<rparr> =
       Inr \<lparr>root_nodes = r @ [Elif test (if stmts = [] then [Pass] else stmts)], stack = []\<rparr>"
  by (simp add: with_except_def scoped_def add_def add_node_def append_current_def push_node_def
      update_top_def ExceptBuilder_node_def is_BodyNode_def body_append_def
      ExceptBuilder_exit_def ElseBuilder_exit_def ElifBuilder_exit_def stack_pop_def Let_def
      fill_body_simps)

section \<open>Properties of the renderer\<close>

subsection \<open>The indentation counter is restored\<close>

lemma level_down_up [simp]: "level_down (level_up g) = g"
  by (simp add: level_down_def level_up_def)

lemma indent_char_level_up [simp]: "indent_char (level_up g) = indent_char g"
  by (simp add: level_up_def)

lemma indent_level_level_up [simp]: "indent_level (level_up g) = indent_level g + 1"
  by (simp add: level_up_def)

lemma lines_restores:
  "list_all (restores X) ns \<Longrightarrow> snd (generate_lines X g ns) = g"
  by (induction ns arbitrary: g) (auto simp: split_beta Let_def restores_def)

lemma each_restores:
  "list_all (restores X) ns \<Longrightarrow> snd (generate_each X g ns) = g"
  by (induction ns arbitrary: g) (auto simp: split_beta Let_def restores_def)

lemma restores_all: "restores X n"
proof (induction n)
qed (simp_all add: restores_def [of _ "_ :: 'e node"] split_beta Let_def lines_restores each_restores list_all_iff split: option.splits)

lemma snd_generate_node [simp]: "snd (generate_node X g n) = g"
  using restores_all [of X n] by (simp add: restores_def)

lemma snd_generate_lines [simp]: "snd (generate_lines X g ns) = g"
  by (rule lines_restores) (simp add: list_all_iff restores_all)

lemma snd_generate_each [simp]: "snd (generate_each X g ns) = g"
  by (rule each_restores) (simp add: list_all_iff restores_all)

lemma snd_generate_nodes [simp]: "snd (generate_nodes X g ns) = g"
  by (simp add: split_beta)

lemma fst_generate_each: "fst (generate_each X g ns) = map (node_text X g) ns"
  by (induction ns) (simp_all add: split_beta node_text_def)

lemma fst_generate_lines:
  "fst (generate_lines X g ns) =
     filter (\<lambda>code. code \<noteq> []) (map (node_text X g) (filter is_BaseNode ns))"
  by (induction ns) (simp_all add: split_beta node_text_def)

lemma nodes_text_eq:
  "nodes_text X g ns =
     join newline (filter (\<lambda>code. code \<noteq> []) (map (node_text X g) (filter is_BaseNode ns)))"
  by (simp add: nodes_text_def split_beta fst_generate_lines)

lemma fst_generate_nodes: "fst (generate_nodes X g ns) = nodes_text X g ns"
  by (simp add: nodes_text_def)

lemma node_text_shape:
  "node_text X g n =
     join newline
       (own_lines X (indent_of g) n @
        (case body_of n of
           Some body \<Rightarrow> if is_block n then [nodes_text X (level_up g) body] else []
         | None \<Rightarrow> []) @
        clause_parts X g n)"
proof (cases n)
qed (simp_all add: node_text_def [of _ _ "_ :: 'e node"] split_beta Let_def fst_generate_each fst_generate_nodes
      fst_generate_lines else_clause_def nodes_text_eq [of _ _ "_ :: 'e node list"]
      split: option.splits)

subsection \<open>Lines and indentation\<close>

lemma split_lines_nonempty [simp]: "split_lines s \<noteq> []"
  by (induction s) (auto split: list.splits)

lemma split_lines_single: "single_line s \<Longrightarrow> split_lines s = [s]"
  by (induction s) (auto simp: single_line_def)

lemma split_lines_append_newline:
  "split_lines (a @ newline @ b) = split_lines a @ split_lines b"
proof (induction a)
  case Nil
  show ?case by (simp add: newline_def)
next
  case (Cons c a)
  show ?case
  proof (cases "split_lines a")
    case Nil
    then show ?thesis by simp
  next
    case (Cons l ls)
    then show ?thesis using Cons.IH by simp
  qed
qed

lemma single_line_append [simp]: "single_line (a @ b) = (single_line a \<and> single_line b)"
  by (auto simp: single_line_def)

lemma single_line_Nil [simp]: "single_line []"
  by (simp add: single_line_def)

lemma indented_Nil [simp]: "indented p []"
  by (simp add: indented_def)

lemma indented_join: "indented p (join newline xs) = list_all (indented p) xs"
proof (induction newline xs rule: join.induct)
  case 1
  show ?case by simp
next
  case (2 x)
  show ?case by simp
next
  case (3 x y ys)
  then show ?case by (simp add: split_lines_append_newline indented_def)
qed

lemma indented_single: "single_line p \<Longrightarrow> single_line s \<Longrightarrow> indented p (p @ s)"
  by (simp add: indented_def split_lines_single)

lemma indented_mono: "prefix p q \<Longrightarrow> indented q s \<Longrightarrow> indented p s"
  by (auto simp: indented_def list_all_iff intro: prefix_order.trans)

lemma single_line_concat_replicate: "single_line u \<Longrightarrow> single_line (concat (replicate k u))"
  by (induction k) simp_all

lemma single_line_indent_of: "single_line (indent_char g) \<Longrightarrow> single_line (indent_of g)"
  by (simp add: indent_of_def single_line_concat_replicate)

lemma concat_replicate_Suc_right: "concat (replicate (Suc k) u) = concat (replicate k u) @ u"
  by (induction k) simp_all

lemma indent_of_level_up:
  "0 \<le> indent_level g \<Longrightarrow> indent_of (level_up g) = indent_of g @ indent_char g"
proof -
  assume "0 \<le> indent_level g"
  then have "nat (indent_level g + 1) = Suc (nat (indent_level g))" by simp
  then show ?thesis by (simp add: indent_of_def concat_replicate_Suc_right del: replicate_Suc replicate.simps)
qed

lemma prefix_indent_of_level_up: "prefix (indent_of g) (indent_of (level_up g))"
proof (cases "0 \<le> indent_level g")
  case True
  then show ?thesis by (simp add: indent_of_level_up)
next
  case False
  then show ?thesis by (simp add: indent_of_def)
qed

lemma indent_of_units:
  "indent_level g = int d \<Longrightarrow> indent_of g = concat (replicate d (indent_char g))"
  by (simp add: indent_of_def)

subsection \<open>Kinds without a rendering rule\<close>



subsection \<open>Rendering twice\<close>


lemma generate_renders:
  "nodes_raises F (root_nodes b) = None \<Longrightarrow>
   generate X F E g b mode file_name path w =
     (let code = nodes_text X g (root_nodes b) in
      if mode = ''console'' then (Inr code, g, w\<lparr>console := console w @ code @ newline\<rparr>)
      else if mode = ''file'' then
        (case file_name of
           None \<Rightarrow> (Inl (ValueError file_name_required), g, w)
         | Some name \<Rightarrow>
             if name = [] then (Inl (ValueError file_name_required), g, w)
             else (case write_text_raises E (path_div E path name) of
                     Some e \<Rightarrow> (Inl e, g, w)
                   | None \<Rightarrow>
                       (Inr code, g, w\<lparr>files := (files w)(path_div E path name \<mapsto> code)\<rparr>)))
      else (Inr code, g, w))"
  by (simp add: generate_def split_beta Let_def nodes_text_def split: option.splits)

text \<open>
  Claim C7.  Two calls of \<^verbatim>\<open>generate\<close> on the same generator object, one after the
  other, with the same builder and the same arguments.  Whenever both calls return a
  text, it is the same text, character for character, also when the operating system
  answers the second call differently (\<open>E'\<close>).  When it answers the same way, the two
  calls have the same result altogether: the same text, or the same exception.  When
  rendering the tree raises nothing, the first call leaves the generator as it found
  it, so the second starts from the same configuration and the same
  \<^verbatim>\<open>indent_level\<close>.  What the first call printed or wrote (the world the second call
  starts in) has no influence on the result.
\<close>

theorem render_twice_same_text:
  "generate X F E g b mode file_name path w = (ra, ga, wa) \<and>
   generate X F E' ga b mode file_name path w' = (rb, gb, wb)
   \<longrightarrow> (\<forall>t1 t2. ra = Inr t1 \<and> rb = Inr t2 \<longrightarrow> t2 = t1)
     \<and> (E' = E \<longrightarrow> rb = ra)
     \<and> (nodes_raises F (root_nodes b) = None \<longrightarrow> ga = g \<and> gb = g)"
proof (cases "nodes_raises F (root_nodes b)")
  case None
  have same: "generate X F E0 g0 b mode file_name path w0 = (r0, g0', w0') \<Longrightarrow> g0' = g0"
    for E0 g0 w0 r0 g0' w0'
    using None by (auto simp: generate_renders Let_def split: if_splits option.splits)
  show ?thesis
  proof (intro impI, elim conjE)
    assume first: "generate X F E g b mode file_name path w = (ra, ga, wa)"
      and second: "generate X F E' ga b mode file_name path w' = (rb, gb, wb)"
    have ea: "ga = g" using first by (rule same)
    have eb: "gb = g" using second same ea by blast
    have texts: "\<forall>t1 t2. ra = Inr t1 \<and> rb = Inr t2 \<longrightarrow> t2 = t1"
      using first second unfolding ea
      by (auto simp: generate_renders [OF None] Let_def split: if_splits option.splits)
    have results: "E' = E \<longrightarrow> rb = ra"
      using first second unfolding ea
      by (auto simp: generate_renders [OF None] Let_def split: if_splits option.splits)
    show "(\<forall>t1 t2. ra = Inr t1 \<and> rb = Inr t2 \<longrightarrow> t2 = t1)
     \<and> (E' = E \<longrightarrow> rb = ra)
     \<and> (nodes_raises F (root_nodes b) = None \<longrightarrow> ga = g \<and> gb = g)"
      using ea eb texts results by blast
  qed
next
  case (Some ek)
  obtain e k where ek: "ek = (e, k)" by (cases ek)
  show ?thesis
    using Some by (auto simp: generate_def ek)
qed

theorem render_twice_same_text_witness:
  "generate pycraft_rules pycraft_failures
     \<lparr>path_div = (\<lambda>d f. d @ ''/'' @ f), write_text_raises = (\<lambda>p. None)\<rparr>
     (CodeGenerator_init [CHR 0x09])
     \<lparr>root_nodes = [IfNode (Some (Name ''x'')) [Pass] []], stack = []\<rparr> ''console'' None ''.''
     \<lparr>console = [], files = Map.empty\<rparr> =
     (Inr (''if x:'' @ newline @ [CHR 0x09] @ ''pass''), CodeGenerator_init [CHR 0x09],
      \<lparr>console = ''if x:'' @ newline @ [CHR 0x09] @ ''pass'' @ newline, files = Map.empty\<rparr>)
   \<and> generate pycraft_rules pycraft_failures
     \<lparr>path_div = (\<lambda>d f. d @ ''/'' @ f), write_text_raises = (\<lambda>p. None)\<rparr>
     (CodeGenerator_init [CHR 0x09])
     \<lparr>root_nodes = [IfNode (Some (Name ''x'')) [Pass] []], stack = []\<rparr> ''console'' None ''.''
     \<lparr>console = ''if x:'' @ newline @ [CHR 0x09] @ ''pass'' @ newline, files = Map.empty\<rparr> =
     (Inr (''if x:'' @ newline @ [CHR 0x09] @ ''pass''), CodeGenerator_init [CHR 0x09],
      \<lparr>console = ''if x:'' @ newline @ [CHR 0x09] @ ''pass'' @ newline @
                 ''if x:'' @ newline @ [CHR 0x09] @ ''pass'' @ newline, files = Map.empty\<rparr>)
   \<and> nodes_raises pycraft_failures [IfNode (Some (Name ''x'')) [Pass] []] = None"
  using render_twice_same_text [where X = pycraft_rules and F = pycraft_failures
      and E = "\<lparr>path_div = (\<lambda>d f. d @ ''/'' @ f), write_text_raises = (\<lambda>p. None)\<rparr>"
      and E' = "\<lparr>path_div = (\<lambda>d f. d @ ''/'' @ f), write_text_raises = (\<lambda>p. None)\<rparr>"
      and g = "CodeGenerator_init [CHR 0x09]"
      and b = "\<lparr>root_nodes = [IfNode (Some (Name ''x'')) [Pass] []], stack = []\<rparr>"
      and mode = "''console''" and file_name = None and path = "''.''"
      and w = "\<lparr>console = [], files = Map.empty\<rparr>"
      and ra = "Inr (''if x:'' @ newline @ [CHR 0x09] @ ''pass'')"
      and ga = "CodeGenerator_init [CHR 0x09]"
      and wa = "\<lparr>console = ''if x:'' @ newline @ [CHR 0x09] @ ''pass'' @ newline, files = Map.empty\<rparr>"
      and w' = "\<lparr>console = ''if x:'' @ newline @ [CHR 0x09] @ ''pass'' @ newline, files = Map.empty\<rparr>"
      and rb = "Inr (''if x:'' @ newline @ [CHR 0x09] @ ''pass'')"
      and gb = "CodeGenerator_init [CHR 0x09]"
      and wb = "\<lparr>console = ''if x:'' @ newline @ [CHR 0x09] @ ''pass'' @ newline @
                 ''if x:'' @ newline @ [CHR 0x09] @ ''pass'' @ newline, files = Map.empty\<rparr>"]
  by (simp add: generate_def split_beta Let_def CodeGenerator_init_def indent_of_def level_up_def
      level_down_def pycraft_rules_def pycraft_failures_def safe_generate_expr_def
      otherwise_def raised_def one_deeper_def opt_raised_def)

subsection \<open>File mode\<close>





subsection \<open>Empty bodies\<close>









subsection \<open>Indentation\<close>

lemma single_line_Cons [simp]: "single_line (c # s) = (c \<noteq> CHR 0x0A \<and> single_line s)"
  by (auto simp: single_line_def)

lemma own_lines_indent: "own_lines X indent n = map ((@) indent) (own_lines X [] n)"
  by (cases n) (simp_all add: class_header_def function_header_def except_line_def Let_def)

lemma inline_ok_own: "inline_ok X n \<Longrightarrow> list_all single_line (own_lines X [] n)"
  by (cases n) simp_all

lemma own_indented:
  assumes "inline_ok X n" "single_line (indent_char g)"
  shows "list_all (indented (indent_of g)) (own_lines X (indent_of g) n)"
proof -
  have "list_all single_line (own_lines X [] n)" using assms(1) by (rule inline_ok_own)
  moreover have "single_line (indent_of g)" using assms(2) by (rule single_line_indent_of)
  ultimately show ?thesis
    by (subst own_lines_indent) (simp add: list_all_iff indented_single)
qed


lemma list_parts:
  assumes "list_all (keeps_indent X) ns" "list_all (inline_ok X) ns" "single_line (indent_char g)"
  shows "list_all (indented (indent_of g)) (map (node_text X g) ns)"
    and "list_all (indented (indent_of g)) (map (node_text X (level_up g)) ns)"
    and "indented (indent_of g) (nodes_text X g ns)"
    and "indented (indent_of g) (nodes_text X (level_up g) ns)"
    and "list_all (indented (indent_of g))
           (filter (\<lambda>code. code \<noteq> []) (map (node_text X g) (filter is_BaseNode ns)))"
proof -
  have up: "single_line (indent_char (level_up g))" using assms(3) by simp
  show a: "list_all (indented (indent_of g)) (map (node_text X g) ns)"
    using assms by (simp add: list_all_iff keeps_indent_def)
  have b: "list_all (indented (indent_of (level_up g))) (map (node_text X (level_up g)) ns)"
    using assms(1,2) up by (simp add: list_all_iff keeps_indent_def)
  then show c: "list_all (indented (indent_of g)) (map (node_text X (level_up g)) ns)"
    by (simp add: list_all_iff) (blast intro: indented_mono [OF prefix_indent_of_level_up])
  show "indented (indent_of g) (nodes_text X g ns)"
    using a by (auto simp: nodes_text_eq indented_join list_all_iff)
  show "indented (indent_of g) (nodes_text X (level_up g) ns)"
    using c by (auto simp: nodes_text_eq indented_join list_all_iff)
  show "list_all (indented (indent_of g))
           (filter (\<lambda>code. code \<noteq> []) (map (node_text X g) (filter is_BaseNode ns)))"
    using a by (auto simp: list_all_iff)
qed

lemma else_clause_indented:
  assumes "list_all (keeps_indent X) ns" "list_all (inline_ok X) ns" "single_line (indent_char g)"
    "single_line kw"
  shows "list_all (indented (indent_of g)) (else_clause X g kw ns)"
  using list_parts(4) [OF assms(1,2,3)] assms(3,4)
  by (simp add: else_clause_def indented_single single_line_indent_of)

lemma keeps_indentI:
  "(\<And>g. inline_ok X n \<Longrightarrow> single_line (indent_char g) \<Longrightarrow>
        indented (indent_of g) (node_text X g n)) \<Longrightarrow> keeps_indent X n"
  by (simp add: keeps_indent_def)

lemma keeps_indent_step:
  assumes "inline_ok X n" "single_line (indent_char g)"
    and "\<And>b. body_of n = Some b \<Longrightarrow> is_block n \<Longrightarrow>
           indented (indent_of g) (nodes_text X (level_up g) b)"
    and "list_all (indented (indent_of g)) (clause_parts X g n)"
  shows "indented (indent_of g) (node_text X g n)"
  using assms
  by (subst node_text_shape) (simp add: indented_join own_indented split: option.splits)

lemma keeps_indent_all: "keeps_indent X n"
proof (induction n)
qed (auto intro!: keeps_indentI keeps_indent_step
      simp: list_parts else_clause_indented list_all_iff [of "keeps_indent X"])

lemma block_children_ok:
  "is_block n \<Longrightarrow> body_of n = Some body \<Longrightarrow> inline_ok X n \<Longrightarrow> list_all (inline_ok X) body"
  by (cases n) simp_all

lemma body_indented:
  assumes "is_block n" "body_of n = Some body" "inline_ok X n" "single_line (indent_char g)"
  shows "indented (indent_of (level_up g)) (nodes_text X (level_up g) body)"
proof -
  have "list_all (inline_ok X) body" using assms(1,2,3) by (rule block_children_ok)
  moreover have "list_all (keeps_indent X) body" by (simp add: list_all_iff keeps_indent_all)
  moreover have "single_line (indent_char (level_up g))" using assms(4) by simp
  ultimately show ?thesis using list_parts(3) [of X body "level_up g"] by simp
qed

text \<open>
  Claim C6.  Let a node \<open>n\<close> be rendered at depth \<open>d\<close>, that is, with
  \<^verbatim>\<open>indent_level\<close> equal to \<open>d\<close>, under any indentation unit and any expression
  rules.  (1) Each of its own header lines is one fixed text, the same at every depth
  and for every unit, with exactly \<open>d\<close> repetitions of the unit in front.  (2) Its
  text is these lines, then (for a kind with a body) the text of the body rendered at
  \<^verbatim>\<open>indent_level\<close> \<open>d + 1\<close>, then its continuation clauses, joined by line breaks.
  (3) At that deeper level the own lines of any statement carry exactly \<open>d + 1\<close>
  repetitions.  (4) When the unit and the names and expression fragments of the tree
  have no line break, every physical line of the text of \<open>n\<close> that is not blank
  starts with \<open>d\<close> repetitions of the unit, and every such line of its body starts
  with \<open>d + 1\<close>.  A blank line comes from a body or a continuation entry that
  renders as the empty text; it belongs to no statement.
\<close>

theorem indentation_invariant:
  "indent_level g = int d \<longrightarrow>
     own_lines X (indent_of g) n =
       map ((@) (concat (replicate d (indent_char g)))) (own_lines X [] n)
   \<and> node_text X g n =
       join newline
         (own_lines X (indent_of g) n @
          (case body_of n of
             Some body \<Rightarrow> if is_block n then [nodes_text X (level_up g) body] else []
           | None \<Rightarrow> []) @
          clause_parts X g n)
   \<and> (\<forall>m. own_lines X (indent_of (level_up g)) m =
            map ((@) (concat (replicate (d + 1) (indent_char g)))) (own_lines X [] m))
   \<and> (single_line (indent_char g) \<and> inline_ok X n \<longrightarrow>
        indented (concat (replicate d (indent_char g))) (node_text X g n)
      \<and> (\<forall>body. is_block n \<and> body_of n = Some body \<longrightarrow>
             indented (concat (replicate (d + 1) (indent_char g)))
               (nodes_text X (level_up g) body)))"
proof (intro impI)
  assume lvl: "indent_level g = int d"
  then have ind: "indent_of g = concat (replicate d (indent_char g))"
    by (rule indent_of_units)
  have "indent_level (level_up g) = int (d + 1)" using lvl by simp
  then have ind_up: "indent_of (level_up g) = concat (replicate (d + 1) (indent_char g))"
    using indent_of_units [of "level_up g" "d + 1"] by simp
  have 1: "own_lines X (indent_of g) n =
       map ((@) (concat (replicate d (indent_char g)))) (own_lines X [] n)"
    using own_lines_indent [of X "indent_of g" n] by (simp only: ind)
  have 2: "\<forall>m. own_lines X (indent_of (level_up g)) m =
            map ((@) (concat (replicate (d + 1) (indent_char g)))) (own_lines X [] m)"
  proof
    fix m
    show "own_lines X (indent_of (level_up g)) m =
            map ((@) (concat (replicate (d + 1) (indent_char g)))) (own_lines X [] m)"
      using own_lines_indent [of X "indent_of (level_up g)" m] by (simp only: ind_up)
  qed
  have 3: "single_line (indent_char g) \<and> inline_ok X n \<longrightarrow>
        indented (concat (replicate d (indent_char g))) (node_text X g n)
      \<and> (\<forall>body. is_block n \<and> body_of n = Some body \<longrightarrow>
             indented (concat (replicate (d + 1) (indent_char g)))
               (nodes_text X (level_up g) body))"
  proof (intro impI conjI allI)
    assume h: "single_line (indent_char g) \<and> inline_ok X n"
    show "indented (concat (replicate d (indent_char g))) (node_text X g n)"
      using keeps_indent_all [of X n] h by (simp add: keeps_indent_def ind [symmetric])
  next
    fix body
    assume h: "single_line (indent_char g) \<and> inline_ok X n"
      and b: "is_block n \<and> body_of n = Some body"
    have "indented (indent_of (level_up g)) (nodes_text X (level_up g) body)"
      using b h by (intro body_indented [of n]) simp_all
    then show "indented (concat (replicate (d + 1) (indent_char g)))
               (nodes_text X (level_up g) body)"
      by (simp only: ind_up)
  qed
  show "own_lines X (indent_of g) n =
       map ((@) (concat (replicate d (indent_char g)))) (own_lines X [] n)
   \<and> node_text X g n =
       join newline
         (own_lines X (indent_of g) n @
          (case body_of n of
             Some body \<Rightarrow> if is_block n then [nodes_text X (level_up g) body] else []
           | None \<Rightarrow> []) @
          clause_parts X g n)
   \<and> (\<forall>m. own_lines X (indent_of (level_up g)) m =
            map ((@) (concat (replicate (d + 1) (indent_char g)))) (own_lines X [] m))
   \<and> (single_line (indent_char g) \<and> inline_ok X n \<longrightarrow>
        indented (concat (replicate d (indent_char g))) (node_text X g n)
      \<and> (\<forall>body. is_block n \<and> body_of n = Some body \<longrightarrow>
             indented (concat (replicate (d + 1) (indent_char g)))
               (nodes_text X (level_up g) body)))"
    using 1 2 3 node_text_shape [of X g n] by blast
qed

theorem indentation_invariant_witness:
  "indent_level \<lparr>indent_char = ''  '', indent_level = 1\<rparr> = int 1
   \<and> single_line ''  ''
   \<and> inline_ok pycraft_rules (IfNode (Some (Name ''x'')) [Return (Some (Name ''y''))] [])
   \<and> is_block (IfNode (Some (Name ''x'')) [Return (Some (Name ''y''))] [] :: expr node)
   \<and> node_text pycraft_rules \<lparr>indent_char = ''  '', indent_level = 1\<rparr>
       (IfNode (Some (Name ''x'')) [Return (Some (Name ''y''))] []) =
       ''  if x:'' @ newline @ ''    return y''
   \<and> indented ''  '' (''  if x:'' @ newline @ ''    return y'')
   \<and> indented ''    '' ''    return y''"
  using indentation_invariant [where g = "\<lparr>indent_char = ''  '', indent_level = 1\<rparr>" and d = 1
      and X = pycraft_rules and n = "IfNode (Some (Name ''x'')) [Return (Some (Name ''y''))] []"]
  by (auto simp add: pycraft_rules_def safe_generate_expr_def nodes_text_eq
      node_text_def [of _ _ "Return _"] indent_of_def level_up_def eval_nat_numeral)

end
